theory Spec2Isabelle
  imports Complex_Main "HOL-Library.Word" "HOL-Library.Sublist" "HOL-Library.Multiset"
begin

chapter \<open>The model\<close>

section \<open>JavaScript strings\<close>

text \<open>
  A JavaScript string is a sequence of UTF-16 code units; \<open>length\<close>, indexing,
  \<open>includes\<close>, \<open>split\<close> and regular expressions without the \<open>u\<close> flag all
  work on code units. String literals of the source are written with \<open>js\<close>.
\<close>

type_synonym jsstring = "16 word list"

definition js :: "string \<Rightarrow> jsstring" where
  "js s = map of_char s"

text \<open>\<open>s.includes(p)\<close>: \<open>p\<close> occurs in \<open>s\<close> as a contiguous run.\<close>

fun str_includes :: "jsstring \<Rightarrow> jsstring \<Rightarrow> bool" where
  "str_includes [] p = (p = [])"
| "str_includes (c # cs) p = (prefix p (c # cs) \<or> str_includes cs p)"

text \<open>
  \<open>String.prototype.toLowerCase\<close> is a parameter of the model: the Unicode case
  mapping of the host, a function from strings to strings. Every function that calls
  it takes it as its first argument, named \<open>toLowerCase\<close>, and the general
  theorems below hold for any such function.

  On a string of ASCII characters the mapping replaces the letters A to Z by a to z
  and leaves the rest as it is; \<open>asciiLowerCase\<close> does this. It stands for the
  parameter where the model is evaluated at a concrete ASCII input.
\<close>

type_synonym caseMapping = "jsstring \<Rightarrow> jsstring"

definition asciiLowerUnit :: "16 word \<Rightarrow> 16 word" where
  "asciiLowerUnit c = (if 0x41 \<le> c \<and> c \<le> 0x5A then c + 0x20 else c)"

definition asciiLowerCase :: caseMapping where
  "asciiLowerCase s = map asciiLowerUnit s"

text \<open>
  White space as \<open>trim\<close> and the regular expression class \<open>\s\<close> see it: the
  ECMAScript WhiteSpace and LineTerminator code points, all of them in the basic plane.
\<close>

definition isWhiteSpace :: "16 word \<Rightarrow> bool" where
  "isWhiteSpace c \<longleftrightarrow>
     c \<in> set [0x09, 0x0A, 0x0B, 0x0C, 0x0D, 0x20, 0xA0, 0x1680, 0x2028, 0x2029,
               0x202F, 0x205F, 0x3000, 0xFEFF]
     \<or> (0x2000 \<le> c \<and> c \<le> 0x200A)"

definition trim :: "jsstring \<Rightarrow> jsstring" where
  "trim s = rev (dropWhile isWhiteSpace (rev (dropWhile isWhiteSpace s)))"

text \<open>
  \<open>s.split(sep)\<close> for a separator of one code unit. The result is never empty:
  \<open>"".split("\n")\<close> is \<open>[""]\<close>.
\<close>

fun split :: "16 word \<Rightarrow> jsstring \<Rightarrow> jsstring list" where
  "split sep [] = [] # []"
| "split sep (c # cs) =
     (if c = sep then [] # split sep cs
      else (case split sep cs of [] \<Rightarrow> [c] # [] | l # ls \<Rightarrow> (c # l) # ls))"

section \<open>File type detection (components/file-upload.tsx)\<close>

datatype fileType = Comments | Videos | Unknown

definition commentHeaders :: "jsstring list" where
  "commentHeaders = [js ''commentid'', js ''textoriginal'', js ''authorid'', js ''videoid'']"

definition videoHeaders :: "jsstring list" where
  "videoHeaders =
     [js ''videoid'', js ''title'', js ''description'', js ''viewcount'', js ''channelid'']"

text \<open>
  The callback of both \<open>filter\<close> calls:
  \<open>lowerHeaders.some((h) => h.includes(header) || header.includes(h))\<close>.
\<close>

definition headerMatch :: "jsstring list \<Rightarrow> jsstring \<Rightarrow> bool" where
  "headerMatch lowerHeaders header =
     list_ex (\<lambda>h. str_includes h header \<or> str_includes header h) lowerHeaders"

definition detectFileType :: "caseMapping \<Rightarrow> jsstring list \<Rightarrow> fileType" where
  "detectFileType toLowerCase headers =
     (let lowerHeaders = map toLowerCase headers;
          commentMatches = length (filter (headerMatch lowerHeaders) commentHeaders);
          videoMatches = length (filter (headerMatch lowerHeaders) videoHeaders)
      in if commentMatches \<ge> 3 then Comments
         else if videoMatches \<ge> 3 then Videos
         else Unknown)"

text \<open>
  The number of tokens of a signature that match some header, stated with sets:
  a token matches a header when, after lower-casing the header, one of the two is a
  contiguous part of the other.
\<close>

definition signatureHits :: "caseMapping \<Rightarrow> jsstring list \<Rightarrow> jsstring list \<Rightarrow> nat" where
  "signatureHits toLowerCase signature headers =
     card {t \<in> set signature.
             \<exists>h \<in> set headers. sublist t (toLowerCase h) \<or> sublist (toLowerCase h) t}"

section \<open>CSV parsing (CommentAnalyzer.parseCSV, parseCSVLine)\<close>

text \<open>
  A plain object used as a dictionary: its own properties in creation order. Assigning
  to an existing key keeps the key's position.
\<close>

type_synonym 'v jsobj = "(jsstring \<times> 'v) list"

fun setProp :: "'k \<Rightarrow> 'v \<Rightarrow> ('k \<times> 'v) list \<Rightarrow> ('k \<times> 'v) list" where
  "setProp k v [] = [(k, v)]"
| "setProp k v ((k', v') # ps) =
     (if k' = k then (k, v) # ps else (k', v') # setProp k v ps)"

text \<open>
  The quote-aware splitter. The arguments after the separator are the rest of the line
  from index \<open>i\<close> on, \<open>current\<close>, \<open>inQuotes\<close> and \<open>result\<close>; \<open>0x22\<close> is the double
  quote. \<open>nextChar\<close> is undefined at the last character, so that a quote there toggles.
\<close>

fun parseCSVLoop ::
  "16 word \<Rightarrow> jsstring \<Rightarrow> jsstring \<Rightarrow> bool \<Rightarrow> jsstring list \<Rightarrow> jsstring list" where
  "parseCSVLoop sep [] current inQuotes result = result @ [current]"
| "parseCSVLoop sep [c] current inQuotes result =
     (if c = 0x22 then parseCSVLoop sep [] current (\<not> inQuotes) result
      else if c = sep \<and> \<not> inQuotes then parseCSVLoop sep [] [] inQuotes (result @ [current])
      else parseCSVLoop sep [] (current @ [c]) inQuotes result)"
| "parseCSVLoop sep (c # nextChar # rest) current inQuotes result =
     (if c = 0x22 then
        (if inQuotes \<and> nextChar = 0x22
         then parseCSVLoop sep rest (current @ [0x22]) inQuotes result
         else parseCSVLoop sep (nextChar # rest) current (\<not> inQuotes) result)
      else if c = sep \<and> \<not> inQuotes
        then parseCSVLoop sep (nextChar # rest) [] inQuotes (result @ [current])
      else parseCSVLoop sep (nextChar # rest) (current @ [c]) inQuotes result)"

definition parseCSVLine :: "jsstring \<Rightarrow> 16 word \<Rightarrow> jsstring list" where
  "parseCSVLine line separator = parseCSVLoop separator line [] False []"

text \<open>The candidate separators: comma, semicolon, pipe, tab.\<close>

definition separators :: "16 word list" where
  "separators = [0x2C, 0x3B, 0x7C, 0x09]"

definition headerScore :: "caseMapping \<Rightarrow> jsstring list \<Rightarrow> jsstring list \<Rightarrow> nat" where
  "headerScore toLowerCase expectedColumns parsedHeader =
     length (filter
       (\<lambda>col. list_ex (\<lambda>header. str_includes (toLowerCase header) (toLowerCase col)) parsedHeader)
       expectedColumns)"

text \<open>The loop over the separators; the state is \<open>(bestSeparator, bestScore)\<close>.\<close>

definition chooseSeparator :: "caseMapping \<Rightarrow> jsstring \<Rightarrow> jsstring list \<Rightarrow> 16 word" where
  "chooseSeparator toLowerCase headerLine expectedColumns =
     fst (fold
       (\<lambda>separator (bestSeparator, bestScore).
          let score = headerScore toLowerCase expectedColumns (parseCSVLine headerLine separator)
          in if score > bestScore then (separator, score) else (bestSeparator, bestScore))
       separators (0x2C, 0))"

text \<open>
  \<open>row[header.trim()] = values[index]?.trim() || ""\<close> for every header. An assignment
  of a string to the key \<open>__proto__\<close> of a plain object creates no property.
\<close>

definition makeRow :: "jsstring list \<Rightarrow> jsstring list \<Rightarrow> jsstring jsobj" where
  "makeRow headers values =
     fold (\<lambda>(header, v) row.
             if trim header = js ''__proto__'' then row else setProp (trim header) (trim v) row)
          (zip headers values) []"

text \<open>One pass of the loop over the data lines: \<open>None\<close> where the source continues.\<close>

definition parseDataLine :: "jsstring list \<Rightarrow> 16 word \<Rightarrow> jsstring \<Rightarrow> jsstring jsobj option" where
  "parseDataLine headers separator l =
     (let line = trim l in
      if line = [] then None
      else let values = parseCSVLine line separator in
        if length values \<noteq> length headers then None
        else Some (makeRow headers values))"

text \<open>
  The result type has a branch for failure. The only failure the specification names
  is \<open>EmptyInputError\<close>; the source has no \<open>throw\<close>, so every path of \<open>parseCSV\<close>
  ends in \<open>Inr\<close>.
\<close>

datatype parseError = EmptyInputError

definition parseCSV :: "caseMapping \<Rightarrow> jsstring \<Rightarrow> jsstring list \<Rightarrow> parseError + jsstring jsobj list" where
  "parseCSV toLowerCase csvText expectedColumns =
     (let lines = split 0x0A (trim csvText) in
      if length lines < 2 then Inr []
      else (case lines of
              [] \<Rightarrow> Inr []
            | headerLine # dataLines \<Rightarrow>
                let bestSeparator = chooseSeparator toLowerCase headerLine expectedColumns;
                    headers = parseCSVLine headerLine bestSeparator
                in Inr (List.map_filter (parseDataLine headers bestSeparator) dataLines)))"

text \<open>The expected columns that \<open>parseComments\<close> and \<open>parseVideos\<close> pass.\<close>

definition commentColumns :: "jsstring list" where
  "commentColumns =
     [js ''commentId'', js ''textOriginal'', js ''authorId'', js ''likeCount'',
      js ''publishedAt'', js ''videoId'', js ''channelId'']"

definition videoColumns :: "jsstring list" where
  "videoColumns =
     [js ''videoId'', js ''title'', js ''description'', js ''viewCount'', js ''likeCount'',
      js ''commentCount'', js ''channelId'']"

text \<open>A line that has a character other than white space.\<close>

definition nonBlank :: "jsstring \<Rightarrow> bool" where
  "nonBlank l = list_ex (\<lambda>c. \<not> isWhiteSpace c) l"

section \<open>Numbers, dates and integer parsing\<close>

text \<open>
  Counts are natural numbers and ratios are rationals: the model computes with exact
  arithmetic where the source computes with IEEE doubles. A division can also give
  \<open>NaN\<close> or an infinity, which \<open>jsnum\<close> keeps apart from the finite values.
\<close>

datatype jsnum = NaN | Infinity | NegInfinity | Num rat

definition jsDiv :: "rat \<Rightarrow> rat \<Rightarrow> jsnum" where
  "jsDiv a b =
     (if b = 0 then (if a = 0 then NaN else if a > 0 then Infinity else NegInfinity)
      else Num (a / b))"

text \<open>Multiplication by a positive constant.\<close>

definition jsTimes :: "jsnum \<Rightarrow> rat \<Rightarrow> jsnum" where
  "jsTimes x k = (case x of Num r \<Rightarrow> Num (r * k) | other \<Rightarrow> other)"

fun digits :: "nat \<Rightarrow> jsstring" where
  "digits n =
     (if n < 10 then [0x30 + of_nat n] else digits (n div 10) @ [0x30 + of_nat (n mod 10)])"

text \<open>
  \<open>x.toFixed(1)\<close>: the decimal numeral with one fractional digit nearest to \<open>x\<close>, the
  larger one of two equally near; \<open>"NaN"\<close> and the infinities by name. (Magnitudes from
  \<open>1e21\<close> on, which the source prints in exponent form, do not occur: the rate is at
  most 100.)
\<close>

definition toFixed1 :: "jsnum \<Rightarrow> jsstring" where
  "toFixed1 x =
     (case x of
        NaN \<Rightarrow> js ''NaN''
      | Infinity \<Rightarrow> js ''Infinity''
      | NegInfinity \<Rightarrow> js ''-Infinity''
      | Num r \<Rightarrow>
          (let n = nat \<lfloor>\<bar>r\<bar> * 10 + 1 / 2\<rfloor>
           in (if r < 0 then js ''-'' else []) @ digits (n div 10) @ js ''.'' @ digits (n mod 10)))"

text \<open>
  \<open>new Date(s)\<close> is a parameter of the model: the date parser of the host, which gives
  the local-time year and hour of a valid date and \<open>None\<close> for an invalid one.
\<close>

record jsDate =
  fullYear :: int
  hours :: nat

type_synonym dateParser = "jsstring \<Rightarrow> jsDate option"

definition isValidDate :: "dateParser \<Rightarrow> jsstring \<Rightarrow> bool" where
  "isValidDate newDate dateString =
     (if dateString = [] then False
      else (case newDate dateString of
              None \<Rightarrow> False
            | Some date \<Rightarrow> fullYear date > 2005))"

text \<open>
  \<open>Number.parseInt(s)\<close> without a radix: leading white space is skipped, a sign is
  read, the prefix \<open>0x\<close> selects radix 16, and the longest run of digits is the value;
  \<open>None\<close> is \<open>NaN\<close>, the result when there is no digit.
\<close>

definition digitValue :: "16 word \<Rightarrow> nat option" where
  "digitValue c =
     (if 0x30 \<le> c \<and> c \<le> 0x39 then Some (unat c - 0x30)
      else if 0x61 \<le> c \<and> c \<le> 0x66 then Some (unat c - 0x61 + 10)
      else if 0x41 \<le> c \<and> c \<le> 0x46 then Some (unat c - 0x41 + 10)
      else None)"

definition isDigitOf :: "nat \<Rightarrow> 16 word \<Rightarrow> bool" where
  "isDigitOf radix c = (case digitValue c of None \<Rightarrow> False | Some d \<Rightarrow> d < radix)"

definition parseDigits :: "nat \<Rightarrow> jsstring \<Rightarrow> nat option" where
  "parseDigits radix s =
     (let ds = takeWhile (isDigitOf radix) s
      in if ds = [] then None
         else Some (fold (\<lambda>c n. n * radix + (case digitValue c of None \<Rightarrow> 0 | Some d \<Rightarrow> d)) ds 0))"

definition parseInt :: "jsstring \<Rightarrow> int option" where
  "parseInt string =
     (let s = dropWhile isWhiteSpace string;
          (sign, s1) = (case s of
                          [] \<Rightarrow> (1, s)
                        | c # r \<Rightarrow> if c = 0x2D then (- 1, r) else if c = 0x2B then (1, r) else (1, s));
          (radix, s2) = (case s1 of
                           a # b # r \<Rightarrow>
                             if a = 0x30 \<and> (b = 0x78 \<or> b = 0x58) then (16, r) else (10, s1)
                         | _ \<Rightarrow> (10, s1))
      in map_option (\<lambda>n. sign * int n) (parseDigits radix s2))"

text \<open>\<open>Math.max(0, Number.parseInt(s) || 0)\<close>.\<close>

definition cleanCount :: "jsstring \<Rightarrow> nat" where
  "cleanCount s = nat (max 0 (case parseInt s of None \<Rightarrow> 0 | Some n \<Rightarrow> n))"

section \<open>Data cleaning (CommentAnalyzer.cleanCommentData, cleanVideoData)\<close>

text \<open>
  The objects that \<open>parseComments\<close> and \<open>parseVideos\<close> build from a row: every field
  is a string. The cleaning functions overwrite fields of these objects; the model
  returns the cleaned object as a value of the type of the application's
  \<open>CommentData\<close> and \<open>VideoData\<close>.
\<close>

record mappedComment =
  mc_kind :: jsstring
  mc_commentId :: jsstring
  mc_channelId :: jsstring
  mc_videoId :: jsstring
  mc_authorId :: jsstring
  mc_textOriginal :: jsstring
  mc_parentCommentId :: jsstring
  mc_likeCount :: jsstring
  mc_publishedAt :: jsstring
  mc_updatedAt :: jsstring

record commentData =
  cd_kind :: jsstring
  cd_commentId :: jsstring
  cd_channelId :: jsstring
  cd_videoId :: jsstring
  cd_authorId :: jsstring
  cd_textOriginal :: jsstring
  cd_parentCommentId :: jsstring
  cd_likeCount :: nat
  cd_publishedAt :: jsstring
  cd_updatedAt :: jsstring

record mappedVideo =
  mv_kind :: jsstring
  mv_videoId :: jsstring
  mv_publishedAt :: jsstring
  mv_channelId :: jsstring
  mv_title :: jsstring
  mv_description :: jsstring
  mv_tags :: jsstring
  mv_defaultLanguage :: jsstring
  mv_defaultAudioLanguage :: jsstring
  mv_contentDuration :: jsstring
  mv_viewCount :: jsstring
  mv_likeCount :: jsstring
  mv_favouriteCount :: jsstring
  mv_commentCount :: jsstring
  mv_topicCategories :: jsstring

record videoData =
  vd_kind :: jsstring
  vd_videoId :: jsstring
  vd_publishedAt :: jsstring
  vd_channelId :: jsstring
  vd_title :: jsstring
  vd_description :: jsstring
  vd_tags :: "jsstring list"
  vd_defaultLanguage :: jsstring
  vd_defaultAudioLanguage :: jsstring
  vd_contentDuration :: jsstring
  vd_viewCount :: nat
  vd_likeCount :: nat
  vd_favouriteCount :: nat
  vd_commentCount :: nat
  vd_topicCategories :: "jsstring list"

text \<open>The statistics objects; the two kinds share their first six fields.\<close>

record cleaningStats =
  originalCount :: nat
  cleanedCount :: nat
  removedCount :: int
  nullVideoIds :: nat
  invalidDates :: nat
  cleaningRate :: jsstring

record commentStats = cleaningStats +
  nullCommentIds :: nat
  nullTexts :: nat

record videoStats = cleaningStats +
  nullTitles :: nat
  invalidMetrics :: nat

text \<open>\<open>!s || s.trim() === ""\<close> for a string \<open>s\<close>.\<close>

definition blank :: "jsstring \<Rightarrow> bool" where
  "blank s \<longleftrightarrow> s = [] \<or> trim s = []"

text \<open>\<open>s || d\<close> for a string \<open>s\<close>.\<close>

definition orElse :: "jsstring \<Rightarrow> jsstring \<Rightarrow> jsstring" where
  "orElse s d = (if s = [] then d else s)"

definition dateIsReset :: "dateParser \<Rightarrow> jsstring \<Rightarrow> bool" where
  "dateIsReset newDate publishedAt \<longleftrightarrow> publishedAt \<noteq> [] \<and> \<not> isValidDate newDate publishedAt"

text \<open>What the filter callback leaves in a comment that it keeps.\<close>

definition cleanedComment :: "dateParser \<Rightarrow> mappedComment \<Rightarrow> commentData" where
  "cleanedComment newDate comment =
     \<lparr> cd_kind = mc_kind comment,
       cd_commentId = mc_commentId comment,
       cd_channelId = orElse (mc_channelId comment) [],
       cd_videoId = mc_videoId comment,
       cd_authorId = orElse (mc_authorId comment) (js ''unknown''),
       cd_textOriginal = trim (mc_textOriginal comment),
       cd_parentCommentId = mc_parentCommentId comment,
       cd_likeCount = cleanCount (mc_likeCount comment),
       cd_publishedAt =
         (if dateIsReset newDate (mc_publishedAt comment) then [] else mc_publishedAt comment),
       cd_updatedAt = mc_updatedAt comment \<rparr>"

text \<open>
  One call of the filter callback. The state is the array of kept comments followed by
  the counters \<open>nullVideoIds\<close>, \<open>nullCommentIds\<close>, \<open>nullTexts\<close> and \<open>invalidDates\<close>.
\<close>

definition commentFilterStep ::
  "dateParser \<Rightarrow> mappedComment \<Rightarrow> commentData list \<times> nat \<times> nat \<times> nat \<times> nat
     \<Rightarrow> commentData list \<times> nat \<times> nat \<times> nat \<times> nat" where
  "commentFilterStep newDate comment st =
     (case st of (cleaned, nVideoIds, nCommentIds, nTexts, nDates) \<Rightarrow>
        if blank (mc_videoId comment) then (cleaned, nVideoIds + 1, nCommentIds, nTexts, nDates)
        else if blank (mc_commentId comment)
          then (cleaned, nVideoIds, nCommentIds + 1, nTexts, nDates)
        else if blank (mc_textOriginal comment)
          then (cleaned, nVideoIds, nCommentIds, nTexts + 1, nDates)
        else (cleaned @ [cleanedComment newDate comment], nVideoIds, nCommentIds, nTexts,
              if dateIsReset newDate (mc_publishedAt comment) then nDates + 1 else nDates))"

definition cleanCommentData ::
  "dateParser \<Rightarrow> mappedComment list \<Rightarrow> commentData list \<times> commentStats" where
  "cleanCommentData newDate comments =
     (let origCount = length comments in
      case fold (commentFilterStep newDate) comments ([], 0, 0, 0, 0) of
        (cleaned, nVideoIds, nCommentIds, nTexts, nDates) \<Rightarrow>
          (cleaned,
           \<lparr> originalCount = origCount,
             cleanedCount = length cleaned,
             removedCount = int origCount - int (length cleaned),
             nullVideoIds = nVideoIds,
             invalidDates = nDates,
             cleaningRate =
               toFixed1 (jsTimes (jsDiv (of_nat origCount - of_nat (length cleaned))
                                        (of_nat origCount)) 100),
             nullCommentIds = nCommentIds,
             nullTexts = nTexts \<rparr>))"

text \<open>\<open>s.split("|").filter((t) => t.trim()).map((t) => t.trim())\<close>.\<close>

definition splitList :: "jsstring \<Rightarrow> jsstring list" where
  "splitList s = map trim (filter (\<lambda>t. trim t \<noteq> []) (split 0x7C s))"

definition cleanedVideo :: "dateParser \<Rightarrow> mappedVideo \<Rightarrow> videoData" where
  "cleanedVideo newDate video =
     \<lparr> vd_kind = mv_kind video,
       vd_videoId = mv_videoId video,
       vd_publishedAt =
         (if dateIsReset newDate (mv_publishedAt video) then [] else mv_publishedAt video),
       vd_channelId = orElse (mv_channelId video) [],
       vd_title = trim (mv_title video),
       vd_description = orElse (mv_description video) [],
       vd_tags = splitList (mv_tags video),
       vd_defaultLanguage = orElse (mv_defaultLanguage video) (js ''en''),
       vd_defaultAudioLanguage = mv_defaultAudioLanguage video,
       vd_contentDuration = mv_contentDuration video,
       vd_viewCount = cleanCount (mv_viewCount video),
       vd_likeCount = cleanCount (mv_likeCount video),
       vd_favouriteCount = cleanCount (mv_favouriteCount video),
       vd_commentCount = cleanCount (mv_commentCount video),
       vd_topicCategories = splitList (mv_topicCategories video) \<rparr>"

text \<open>
  The state is the array of kept videos followed by the counters \<open>nullVideoIds\<close>,
  \<open>nullTitles\<close>, \<open>invalidDates\<close> and \<open>invalidMetrics\<close>.
\<close>

definition videoFilterStep ::
  "dateParser \<Rightarrow> mappedVideo \<Rightarrow> videoData list \<times> nat \<times> nat \<times> nat \<times> nat
     \<Rightarrow> videoData list \<times> nat \<times> nat \<times> nat \<times> nat" where
  "videoFilterStep newDate video st =
     (case st of (cleaned, nVideoIds, nTitles, nDates, nMetrics) \<Rightarrow>
        if blank (mv_videoId video) then (cleaned, nVideoIds + 1, nTitles, nDates, nMetrics)
        else if blank (mv_title video) then (cleaned, nVideoIds, nTitles + 1, nDates, nMetrics)
        else (cleaned @ [cleanedVideo newDate video], nVideoIds, nTitles,
              (if dateIsReset newDate (mv_publishedAt video) then nDates + 1 else nDates),
              (if mv_viewCount video \<noteq> [] \<and> cleanCount (mv_viewCount video) = 0
               then nMetrics + 1 else nMetrics)))"

definition cleanVideoData ::
  "dateParser \<Rightarrow> mappedVideo list \<Rightarrow> videoData list \<times> videoStats" where
  "cleanVideoData newDate videos =
     (let origCount = length videos in
      case fold (videoFilterStep newDate) videos ([], 0, 0, 0, 0) of
        (cleaned, nVideoIds, nTitles, nDates, nMetrics) \<Rightarrow>
          (cleaned,
           \<lparr> originalCount = origCount,
             cleanedCount = length cleaned,
             removedCount = int origCount - int (length cleaned),
             nullVideoIds = nVideoIds,
             invalidDates = nDates,
             cleaningRate =
               toFixed1 (jsTimes (jsDiv (of_nat origCount - of_nat (length cleaned))
                                        (of_nat origCount)) 100),
             nullTitles = nTitles,
             invalidMetrics = nMetrics \<rparr>))"

text \<open>
  A date parser for evaluating the model on examples: it reads the year and the hour of
  a time stamp of the form \<open>YYYY-MM-DDTHH:...\<close> and rejects every other string.
\<close>

definition exampleDate :: dateParser where
  "exampleDate s =
     (if length s \<ge> 13 \<and> s ! 4 = 0x2D \<and> s ! 7 = 0x2D \<and> s ! 10 = 0x54
         \<and> list_all (isDigitOf 10) (take 4 s) \<and> list_all (isDigitOf 10) (take 2 (drop 11 s))
      then (case (parseDigits 10 (take 4 s), parseDigits 10 (take 2 (drop 11 s))) of
              (Some y, Some h) \<Rightarrow> if h < 24 then Some \<lparr> fullYear = int y, hours = h \<rparr> else None
            | _ \<Rightarrow> None)
      else None)"

section \<open>Example rows\<close>

text \<open>
  The object \<open>parseComments\<close> builds for a row that has only the columns \<open>videoId\<close>,
  \<open>commentId\<close>, \<open>textOriginal\<close> and \<open>publishedAt\<close>, and the object \<open>parseVideos\<close>
  builds for a row that has only \<open>videoId\<close>, \<open>title\<close>, \<open>viewCount\<close>, \<open>likeCount\<close>,
  \<open>favouriteCount\<close> and \<open>commentCount\<close>: the other fields have their defaults.
\<close>

definition commentRow :: "string \<Rightarrow> string \<Rightarrow> string \<Rightarrow> string \<Rightarrow> mappedComment" where
  "commentRow vid cid txt published =
     \<lparr> mc_kind = js ''youtube#comment'', mc_commentId = js cid, mc_channelId = [],
       mc_videoId = js vid, mc_authorId = [], mc_textOriginal = js txt,
       mc_parentCommentId = [], mc_likeCount = js ''0'', mc_publishedAt = js published,
       mc_updatedAt = [] \<rparr>"

definition videoRow ::
  "string \<Rightarrow> string \<Rightarrow> string \<Rightarrow> string \<Rightarrow> string \<Rightarrow> string \<Rightarrow> mappedVideo" where
  "videoRow vid ttl views likes favourites comments =
     \<lparr> mv_kind = js ''youtube#video'', mv_videoId = js vid, mv_publishedAt = [],
       mv_channelId = [], mv_title = js ttl, mv_description = [], mv_tags = [],
       mv_defaultLanguage = js ''en'', mv_defaultAudioLanguage = js ''en'',
       mv_contentDuration = [], mv_viewCount = js views, mv_likeCount = js likes,
       mv_favouriteCount = js favourites, mv_commentCount = js comments,
       mv_topicCategories = [] \<rparr>"

definition exampleCommentRows :: "mappedComment list" where
  "exampleCommentRows =
     [commentRow ''v1'' ''c1'' ''great serum'' ''2024-03-01T15:22:00Z'',
      commentRow '''' ''c2'' ''no video'' '''',
      commentRow ''v1'' ''  '' ''no id'' '''',
      commentRow '''' '''' '''' '''',
      commentRow ''v1'' ''c5'' '' '' '''']"

definition exampleVideoRows :: "mappedVideo list" where
  "exampleVideoRows =
     [videoRow ''v1'' ''Skincare Routine'' ''1000'' ''50'' ''5'' ''2'',
      videoRow ''v2'' '' '' ''10'' ''1'' ''0'' ''0'',
      videoRow '''' '''' ''10'' ''1'' ''0'' ''0'']"

section \<open>Keyword tables (CATEGORY_KEYWORDS, SENTIMENT_PATTERNS, SPAM_PATTERNS)\<close>

text \<open>
  The category names are the four keys of \<open>CATEGORY_KEYWORDS\<close> and \<open>"general"\<close>, the
  only values \<open>categorizeComment\<close> returns.
\<close>

datatype category = Skincare | Fragrance | Makeup | Haircare | General

record categoryKeywords =
  primary :: "jsstring list"
  secondary :: "jsstring list"
  negative :: "jsstring list"

definition skincareKeywords :: categoryKeywords where
  "skincareKeywords =
     \<lparr> primary = map js [''skin'', ''skincare'', ''moisturizer'', ''cleanser'', ''serum'',
         ''cream'', ''lotion'', ''acne'', ''wrinkles'', ''aging'', ''hydration'', ''dry'',
         ''oily'', ''sensitive''],
       secondary = map js [''routine'', ''glow'', ''texture'', ''pores'', ''blackheads'',
         ''breakout'', ''dermatologist'', ''ingredients'', ''retinol'', ''hyaluronic'',
         ''vitamin c'', ''spf''],
       negative = map js [''irritation'', ''reaction'', ''burning'', ''stinging'', ''rash'',
         ''allergic''] \<rparr>"

definition fragranceKeywords :: categoryKeywords where
  "fragranceKeywords =
     \<lparr> primary = map js [''perfume'', ''fragrance'', ''scent'', ''cologne'',
         ''eau de toilette'', ''eau de parfum'', ''smell'', ''aroma'', ''notes'', ''spray''],
       secondary = map js [''floral'', ''woody'', ''citrus'', ''musky'', ''vanilla'', ''rose'',
         ''jasmine'', ''sandalwood'', ''bergamot'', ''lasting'', ''projection'', ''sillage''],
       negative = map js [''overpowering'', ''synthetic'', ''cheap'', ''headache'',
         ''cloying''] \<rparr>"

definition makeupKeywords :: categoryKeywords where
  "makeupKeywords =
     \<lparr> primary = map js [''makeup'', ''cosmetics'', ''foundation'', ''concealer'',
         ''lipstick'', ''eyeshadow'', ''mascara'', ''blush'', ''bronzer'', ''highlighter''],
       secondary = map js [''coverage'', ''pigmentation'', ''blend'', ''long-lasting'',
         ''waterproof'', ''matte'', ''shimmer'', ''palette'', ''brush'', ''application''],
       negative = map js [''patchy'', ''cakey'', ''streaky'', ''smudge'', ''flaky''] \<rparr>"

definition haircareKeywords :: categoryKeywords where
  "haircareKeywords =
     \<lparr> primary = map js [''hair'', ''shampoo'', ''conditioner'', ''styling'', ''treatment'',
         ''mask'', ''oil'', ''serum'', ''spray'', ''gel''],
       secondary = map js [''volume'', ''shine'', ''frizz'', ''damage'', ''repair'', ''growth'',
         ''thickness'', ''curl'', ''straight'', ''color'', ''bleach'', ''dye''],
       negative = map js [''greasy'', ''dry'', ''brittle'', ''thinning'', ''loss'',
         ''damage''] \<rparr>"

text \<open>The entries of \<open>CATEGORY_KEYWORDS\<close> in declaration order.\<close>

definition CATEGORY_KEYWORDS :: "(category \<times> categoryKeywords) list" where
  "CATEGORY_KEYWORDS =
     [(Skincare, skincareKeywords), (Fragrance, fragranceKeywords),
      (Makeup, makeupKeywords), (Haircare, haircareKeywords)]"

definition positiveStrong :: "jsstring list" where
  "positiveStrong = map js [''amazing'', ''incredible'', ''fantastic'', ''outstanding'',
     ''exceptional'', ''phenomenal'', ''brilliant'', ''perfect'', ''flawless'']"

definition positiveModerate :: "jsstring list" where
  "positiveModerate = map js [''good'', ''great'', ''nice'', ''love'', ''like'', ''enjoy'',
     ''happy'', ''satisfied'', ''pleased'', ''recommend'']"

definition positiveMild :: "jsstring list" where
  "positiveMild = map js [''okay'', ''fine'', ''decent'', ''alright'', ''not bad'', ''works'',
     ''useful'']"

definition negativeStrong :: "jsstring list" where
  "negativeStrong = map js [''terrible'', ''awful'', ''horrible'', ''disgusting'', ''worst'',
     ''hate'', ''despise'', ''useless'', ''trash'', ''garbage'']"

definition negativeModerate :: "jsstring list" where
  "negativeModerate = map js [''bad'', ''poor'', ''disappointing'', ''waste'', ''regret'',
     ''annoying'', ''frustrating'', ''overpriced'']"

definition negativeMild :: "jsstring list" where
  "negativeMild = map js [''meh'', ''boring'', ''bland'', ''average'', ''nothing special'',
     ''could be better'']"

definition promotional :: "jsstring list" where
  "promotional = map js [''click here'', ''visit my'', ''check out my'', ''follow me'',
     ''subscribe'', ''link in bio'', ''dm me'', ''message me'']"

definition monetary :: "jsstring list" where
  "monetary = map js [''free money'', ''make money'', ''earn cash'', ''get paid'', ''winner'',
     ''prize'', ''lottery'', ''investment'']"

definition repetitive :: "jsstring list" where
  "repetitive = map js [''first'', ''second'', ''third'', ''fourth'', ''fifth'']"

definition suspicious :: "jsstring list" where
  "suspicious = map js [''bot'', ''fake'', ''scam'', ''virus'', ''hack'', ''phishing'']"

definition stopWords :: "jsstring list" where
  "stopWords = map js [''the'', ''a'', ''an'', ''and'', ''or'', ''but'', ''in'', ''on'', ''at'',
     ''to'', ''for'', ''of'', ''with'', ''by'', ''is'', ''are'', ''was'', ''were'', ''be'',
     ''been'', ''have'', ''has'', ''had'', ''do'', ''does'', ''did'', ''will'', ''would'',
     ''could'', ''should'', ''may'', ''might'', ''must'', ''can'', ''this'', ''that'',
     ''these'', ''those'', ''i'', ''you'', ''he'', ''she'', ''it'', ''we'', ''they'', ''me'',
     ''him'', ''her'', ''us'', ''them'', ''my'', ''your'', ''his'', ''her'', ''its'', ''our'',
     ''their'']"

section \<open>Sentiment (CommentAnalyzer.analyzeSentiment)\<close>

datatype sentiment = Positive | Negative | Neutral

record sentimentResult =
  sr_sentiment :: sentiment
  sr_score :: rat

text \<open>
  One of the six \<open>forEach\<close> loops: every word of the list that the text includes adds
  the weight to \<open>score\<close> and 1 to \<open>wordCount\<close>.
\<close>

definition tally :: "jsstring \<Rightarrow> int \<Rightarrow> jsstring list \<Rightarrow> int \<times> nat \<Rightarrow> int \<times> nat" where
  "tally lowerText weight words st =
     fold (\<lambda>word (score, wordCount).
             if str_includes lowerText word then (score + weight, wordCount + 1)
             else (score, wordCount))
          words st"

definition analyzeSentiment :: "caseMapping \<Rightarrow> jsstring \<Rightarrow> sentimentResult" where
  "analyzeSentiment toLowerCase text =
     (let lowerText = toLowerCase text;
          st1 = tally lowerText 3 positiveStrong (0, 0);
          st2 = tally lowerText 2 positiveModerate st1;
          st3 = tally lowerText 1 positiveMild st2;
          st4 = tally lowerText (- 3) negativeStrong st3;
          st5 = tally lowerText (- 2) negativeModerate st4;
          (score, wordCount) = tally lowerText (- 1) negativeMild st5;
          normalizedScore = (if wordCount > 0 then of_int score / of_nat wordCount else 0);
          sentiment = (if normalizedScore > 1 / 2 then Positive
                       else if normalizedScore < - (1 / 2) then Negative
                       else Neutral)
      in \<lparr> sr_sentiment = sentiment, sr_score = max (- 1) (min 1 normalizedScore) \<rparr>)"

text \<open>The entries of a word list that the lower-cased text includes.\<close>

definition matched :: "caseMapping \<Rightarrow> jsstring \<Rightarrow> jsstring list \<Rightarrow> jsstring list" where
  "matched toLowerCase text words = filter (str_includes (toLowerCase text)) words"

section \<open>Spam (CommentAnalyzer.detectSpam)\<close>

record spamMetadata =
  md_likeCount :: nat
  md_authorId :: jsstring

record spamResult =
  sp_isSpam :: bool
  sp_score :: rat
  sp_reasons :: "jsstring list"

text \<open>
  One of the four pattern loops: every pattern that the text includes adds the weight
  to \<open>spamScore\<close> and pushes the reason.
\<close>

definition spamTally ::
  "jsstring \<Rightarrow> rat \<Rightarrow> jsstring \<Rightarrow> jsstring list \<Rightarrow> rat \<times> jsstring list \<Rightarrow> rat \<times> jsstring list" where
  "spamTally lowerText weight reason patterns st =
     fold (\<lambda>pattern (spamScore, reasons).
             if str_includes lowerText pattern then (spamScore + weight, reasons @ [reason])
             else (spamScore, reasons))
          patterns st"

text \<open>
  The emoji pattern has the \<open>u\<close> flag, so it is matched against code points. All four
  ranges lie outside the basic plane: a match is a surrogate pair whose code point is
  in a range.
\<close>

definition isEmojiCodePoint :: "nat \<Rightarrow> bool" where
  "isEmojiCodePoint cp \<longleftrightarrow>
     (0x1F600 \<le> cp \<and> cp \<le> 0x1F64F) \<or> (0x1F300 \<le> cp \<and> cp \<le> 0x1F5FF) \<or>
     (0x1F680 \<le> cp \<and> cp \<le> 0x1F6FF) \<or> (0x1F1E0 \<le> cp \<and> cp \<le> 0x1F1FF)"

fun emojiCount :: "jsstring \<Rightarrow> nat" where
  "emojiCount (hi # lo # rest) =
     (if 0xD800 \<le> hi \<and> hi \<le> 0xDBFF \<and> 0xDC00 \<le> lo \<and> lo \<le> 0xDFFF
      then (if isEmojiCodePoint (0x10000 + (unat hi - 0xD800) * 0x400 + (unat lo - 0xDC00))
            then 1 else 0) + emojiCount rest
      else emojiCount (lo # rest))"
| "emojiCount _ = 0"

text \<open>\<open>x > k\<close> for a number that may be \<open>NaN\<close>: a comparison with \<open>NaN\<close> is false.\<close>

definition jsGreater :: "jsnum \<Rightarrow> rat \<Rightarrow> bool" where
  "jsGreater x k = (case x of Num r \<Rightarrow> r > k | Infinity \<Rightarrow> True | _ \<Rightarrow> False)"

text \<open>\<open>[...new Set(xs)]\<close>: the first occurrence of every element, in order.\<close>

definition uniqueInOrder :: "'a list \<Rightarrow> 'a list" where
  "uniqueInOrder xs = rev (remdups (rev xs))"

text \<open>The body of \<open>detectSpam\<close> up to its \<open>return\<close>: the state \<open>(spamScore, reasons)\<close>.\<close>

definition spamState :: "caseMapping \<Rightarrow> jsstring \<Rightarrow> rat \<times> jsstring list" where
  "spamState toLowerCase text =
     (let lowerText = toLowerCase text;
          st1 = spamTally lowerText (3 / 10) (js ''promotional_content'') promotional (0, []);
          st2 = spamTally lowerText (4 / 10) (js ''monetary_scheme'') monetary st1;
          st3 = spamTally lowerText (2 / 10) (js ''repetitive_pattern'') repetitive st2;
          st4 = spamTally lowerText (5 / 10) (js ''suspicious_content'') suspicious st3;
          st5 = (if length text < 10
                 then (fst st4 + 2 / 10, snd st4 @ [js ''too_short'']) else st4);
          st6 = (if emojiCount text > 5
                 then (fst st5 + 3 / 10, snd st5 @ [js ''excessive_emojis'']) else st5);
          capsRatio = jsDiv (of_nat (length (filter (\<lambda>c. 0x41 \<le> c \<and> c \<le> 0x5A) text)))
                            (of_nat (length text));
          st7 = (if jsGreater capsRatio (7 / 10) \<and> length text > 10
                 then (fst st6 + 2 / 10, snd st6 @ [js ''excessive_caps'']) else st6);
          st8 = (if str_includes text (js ''http://'') \<or> str_includes text (js ''https://'')
                    \<or> str_includes text (js ''www.'')
                 then (fst st7 + 3 / 10, snd st7 @ [js ''contains_url'']) else st7)
      in st8)"

definition detectSpam :: "caseMapping \<Rightarrow> jsstring \<Rightarrow> spamMetadata \<Rightarrow> spamResult" where
  "detectSpam toLowerCase text metadata =
     (case spamState toLowerCase text of (spamScore, reasons) \<Rightarrow>
        \<lparr> sp_isSpam = (spamScore > 1 / 2),
          sp_score = min 1 spamScore,
          sp_reasons = uniqueInOrder reasons \<rparr>)"

section \<open>Category (CommentAnalyzer.categorizeComment)\<close>

record categoryResult =
  cr_category :: category
  cr_confidence :: rat

text \<open>One keyword loop: every keyword that the text includes adds the weight.\<close>

definition scoreLoop :: "jsstring \<Rightarrow> nat \<Rightarrow> jsstring list \<Rightarrow> nat \<Rightarrow> nat" where
  "scoreLoop lowerText weight keywords score =
     fold (\<lambda>keyword s. if str_includes lowerText keyword then s + weight else s) keywords score"

definition categoryScore :: "jsstring \<Rightarrow> categoryKeywords \<Rightarrow> nat" where
  "categoryScore lowerText keywords =
     scoreLoop lowerText 1 (negative keywords)
       (scoreLoop lowerText 2 (secondary keywords)
          (scoreLoop lowerText 3 (primary keywords) 0))"

text \<open>
  \<open>Array.prototype.sort\<close> is stable; with the comparator \<open>b - a\<close> on numbers it is the
  stable sort by descending value, here \<open>sort_key\<close> on the negated value.
\<close>

definition categorizeComment :: "caseMapping \<Rightarrow> jsstring \<Rightarrow> categoryResult" where
  "categorizeComment toLowerCase text =
     (let lowerText = toLowerCase text;
          categoryScores =
            map (\<lambda>(category, keywords). (category, categoryScore lowerText keywords))
                CATEGORY_KEYWORDS;
          sortedCategories =
            filter (\<lambda>(category, score). score > 0)
                   (sort_key (\<lambda>(category, score). - int score) categoryScores)
      in case sortedCategories of
           [] \<Rightarrow> \<lparr> cr_category = General, cr_confidence = 1 / 10 \<rparr>
         | (topCategory, topScore) # _ \<Rightarrow>
             let totalScore = sum_list (map snd categoryScores);
                 confidence = (if totalScore > 0 then of_nat topScore / of_nat totalScore else 0)
             in \<lparr> cr_category = topCategory, cr_confidence = confidence \<rparr>)"

section \<open>Objects as dictionaries\<close>

text \<open>
  \<open>Object.entries\<close> lists the keys that are array indices (canonical decimal numerals
  below \<open>2^32 - 1\<close>) first, in ascending numeric order, and then the other keys in
  creation order.
\<close>

definition arrayIndex :: "jsstring \<Rightarrow> nat option" where
  "arrayIndex k =
     (case k of
        [] \<Rightarrow> None
      | c # cs \<Rightarrow>
          if list_all (isDigitOf 10) k \<and> (cs = [] \<or> c \<noteq> 0x30)
          then (case parseDigits 10 k of
                  None \<Rightarrow> None
                | Some n \<Rightarrow> if n < 4294967295 then Some n else None)
          else None)"

definition entries :: "'v jsobj \<Rightarrow> (jsstring \<times> 'v) list" where
  "entries obj =
     sort_key (\<lambda>(k, v). case arrayIndex k of None \<Rightarrow> 0 | Some i \<Rightarrow> i)
              (filter (\<lambda>(k, v). arrayIndex k \<noteq> None) obj)
     @ filter (\<lambda>(k, v). arrayIndex k = None) obj"

text \<open>
  A plain object inherits the members of \<open>Object.prototype\<close>: reading one of these keys
  from an object that has no own property of that name gives the inherited member,
  which is truthy.
\<close>

definition objectPrototypeKeys :: "jsstring list" where
  "objectPrototypeKeys = map js [''constructor'', ''__defineGetter__'', ''__defineSetter__'',
     ''hasOwnProperty'', ''__lookupGetter__'', ''__lookupSetter__'', ''isPrototypeOf'',
     ''propertyIsEnumerable'', ''toString'', ''valueOf'', ''__proto__'', ''toLocaleString'']"

section \<open>Keywords (CommentAnalyzer.extractKeywords)\<close>

definition isWordChar :: "16 word \<Rightarrow> bool" where
  "isWordChar c \<longleftrightarrow>
     (0x30 \<le> c \<and> c \<le> 0x39) \<or> (0x41 \<le> c \<and> c \<le> 0x5A) \<or> (0x61 \<le> c \<and> c \<le> 0x7A) \<or> c = 0x5F"

text \<open>\<open>s.split(/\s+/)\<close>: the pieces between the runs of white space.\<close>

function splitWs :: "jsstring \<Rightarrow> jsstring list" where
  "splitWs [] = [] # []"
| "splitWs (c # cs) =
     (if isWhiteSpace c then [] # splitWs (dropWhile isWhiteSpace cs)
      else (case splitWs cs of [] \<Rightarrow> [c] # [] | l # ls \<Rightarrow> (c # l) # ls))"
  by pat_completeness auto
termination
  by (relation "measure length") (auto simp: le_imp_less_Suc length_dropWhile_le)

definition tokens :: "caseMapping \<Rightarrow> jsstring \<Rightarrow> jsstring list" where
  "tokens toLowerCase text =
     filter (\<lambda>word. length word > 3 \<and> word \<notin> set stopWords)
       (splitWs (map (\<lambda>c. if isWordChar c \<or> isWhiteSpace c then c else 0x20)
                     (toLowerCase text)))"

text \<open>
  \<open>wordCounts[word] = (wordCounts[word] || 0) + 1\<close>. A count is \<open>Some n\<close>; for the
  word \<open>constructor\<close> the value read first is the inherited function, and the sum is a
  string that is not a number, \<open>None\<close>. The assignment to \<open>__proto__\<close> creates no
  property.
\<close>

definition bumpWord :: "jsstring \<Rightarrow> nat option jsobj \<Rightarrow> nat option jsobj" where
  "bumpWord word wordCounts =
     (if word = js ''__proto__'' then wordCounts
      else (case map_of wordCounts word of
              None \<Rightarrow> setProp word (if word = js ''constructor'' then None else Some 1) wordCounts
            | Some None \<Rightarrow> setProp word None wordCounts
            | Some (Some n) \<Rightarrow> setProp word (Some (n + 1)) wordCounts))"

text \<open>
  The comparator \<open>([, a], [, b]) => b - a\<close>; a difference that is \<open>NaN\<close> counts as 0.
  \<open>sortBy\<close> is the stable sort for a comparator. (Where a count is not a number the
  comparator is not consistent, and ECMAScript leaves the order to the implementation.)
\<close>

definition countDiff :: "jsstring \<times> nat option \<Rightarrow> jsstring \<times> nat option \<Rightarrow> int" where
  "countDiff x y =
     (case (snd x, snd y) of (Some a, Some b) \<Rightarrow> int b - int a | _ \<Rightarrow> 0)"

fun insertBy :: "('a \<Rightarrow> 'a \<Rightarrow> int) \<Rightarrow> 'a \<Rightarrow> 'a list \<Rightarrow> 'a list" where
  "insertBy cmp x [] = [x]"
| "insertBy cmp x (y # ys) = (if cmp x y \<le> 0 then x # y # ys else y # insertBy cmp x ys)"

definition sortBy :: "('a \<Rightarrow> 'a \<Rightarrow> int) \<Rightarrow> 'a list \<Rightarrow> 'a list" where
  "sortBy cmp xs = foldr (insertBy cmp) xs []"

definition extractKeywords :: "caseMapping \<Rightarrow> jsstring \<Rightarrow> category \<Rightarrow> jsstring list" where
  "extractKeywords toLowerCase text category =
     (let words = tokens toLowerCase text;
          relevantWords =
            (case map_of CATEGORY_KEYWORDS category of
               None \<Rightarrow> []
             | Some categoryKeywords \<Rightarrow>
                 uniqueInOrder
                   (filter (str_includes (toLowerCase text))
                           (primary categoryKeywords @ secondary categoryKeywords)));
          wordCounts = fold bumpWord words [];
          frequentWords =
            map fst (take 5 (sortBy countDiff
              (filter (\<lambda>(word, n). (case n of None \<Rightarrow> False | Some m \<Rightarrow> m > 1) \<or> length word > 5)
                      (entries wordCounts))))
      in take 8 (relevantWords @ frequentWords))"

section \<open>Videos (CommentAnalyzer.analyzeVideo)\<close>

datatype level = High | Medium | Low

text \<open>
  The object \<open>analyzeVideo\<close> returns. \<open>generateMetrics\<close> also reads a property
  \<open>favouriteCount\<close> through a cast to \<open>any\<close>; the interface \<open>AnalyzedVideo\<close> has no such
  property and \<open>analyzeVideo\<close> does not set it, so the model keeps it as an option:
  \<open>None\<close> is \<open>undefined\<close>.
\<close>

record analyzedVideo =
  av_videoId :: jsstring
  av_title :: jsstring
  av_description :: jsstring
  av_channelId :: jsstring
  av_publishedAt :: jsstring
  av_viewCount :: nat
  av_likeCount :: nat
  av_commentCount :: nat
  av_contentDuration :: jsstring
  av_topicCategories :: "jsstring list"
  av_titleSentiment :: sentiment
  av_titleSentimentScore :: rat
  av_descriptionSentiment :: sentiment
  av_descriptionSentimentScore :: rat
  av_category :: category
  av_keywords :: "jsstring list"
  av_engagementRate :: rat
  av_popularityScore :: rat
  av_contentQuality :: level
  av_favouriteCount :: "nat option"

definition analyzeVideo :: "caseMapping \<Rightarrow> videoData \<Rightarrow> analyzedVideo" where
  "analyzeVideo toLowerCase video =
     (let title = vd_title video;
          description = vd_description video;
          titleSentimentResult = analyzeSentiment toLowerCase title;
          descriptionSentimentResult = analyzeSentiment toLowerCase description;
          categoryResult = categorizeComment toLowerCase (title @ js '' '' @ description);
          keywords = extractKeywords toLowerCase (title @ js '' '' @ description) (cr_category categoryResult);
          engagementRate =
            (if vd_viewCount video > 0
             then of_nat (vd_likeCount video) / of_nat (vd_viewCount video) * 100 else 0);
          popularityScore =
            min 100 (of_nat (vd_viewCount video) / 10000 * (4 / 10)
                     + of_nat (vd_likeCount video) / 1000 * (3 / 10)
                     + of_nat (vd_commentCount video) / 100 * (3 / 10));
          contentQuality =
            (if engagementRate > 5 \<and> vd_commentCount video > 50 then High
             else if engagementRate > 2 \<and> vd_commentCount video > 10 then Medium
             else Low)
      in \<lparr> av_videoId = vd_videoId video,
           av_title = vd_title video,
           av_description = vd_description video,
           av_channelId = vd_channelId video,
           av_publishedAt = vd_publishedAt video,
           av_viewCount = vd_viewCount video,
           av_likeCount = vd_likeCount video,
           av_commentCount = vd_commentCount video,
           av_contentDuration = vd_contentDuration video,
           av_topicCategories = vd_topicCategories video,
           av_titleSentiment = sr_sentiment titleSentimentResult,
           av_titleSentimentScore = sr_score titleSentimentResult,
           av_descriptionSentiment = sr_sentiment descriptionSentimentResult,
           av_descriptionSentimentScore = sr_score descriptionSentimentResult,
           av_category = cr_category categoryResult,
           av_keywords = keywords,
           av_engagementRate = engagementRate,
           av_popularityScore = popularityScore,
           av_contentQuality = contentQuality,
           av_favouriteCount = None \<rparr>)"

section \<open>Metrics (CommentAnalyzer.generateMetrics)\<close>

text \<open>
  The fields of an \<open>AnalyzedComment\<close> that \<open>generateMetrics\<close> reads, with the
  identifiers and scores that go with them; the other fields of the interface play no
  part in the metrics.
\<close>

record analyzedComment =
  ac_commentId :: jsstring
  ac_textOriginal :: jsstring
  ac_authorId :: jsstring
  ac_likeCount :: nat
  ac_publishedAt :: jsstring
  ac_sentiment :: sentiment
  ac_sentimentScore :: rat
  ac_category :: category
  ac_isSpam :: bool
  ac_spamScore :: rat
  ac_isQuality :: bool
  ac_keywords :: "jsstring list"
  ac_readabilityScore :: rat

record keywordEntry =
  ke_keyword :: jsstring
  ke_count :: nat
  ke_sentiment :: sentiment

record trend =
  tr_hour :: nat
  tr_comments :: nat
  tr_avgLikes :: rat

record topVideo =
  tv_videoId :: jsstring
  tv_title :: jsstring
  tv_engagementRate :: rat

record categoryPerformanceEntry =
  avgViews :: rat
  avgEngagement :: rat

record videoMetrics =
  totalViews :: nat
  totalLikes :: nat
  totalFavorites :: nat
  avgViewCount :: rat
  avgLikeCount :: rat
  avgFavoriteCount :: rat
  avgCommentCount :: rat
  avgEngagementRate :: rat
  topPerformingVideos :: "topVideo list"
  categoryPerformance :: "(category \<times> categoryPerformanceEntry) list"

record sentimentDistribution =
  sd_positive :: rat
  sd_negative :: rat
  sd_neutral :: rat

record qualityIndicators =
  avgLength :: rat
  avgLikes :: rat
  avgReadability :: rat

record analysisMetrics =
  totalComments :: nat
  totalVideos :: nat
  qualityRatio :: rat
  sentimentDistribution :: sentimentDistribution
  videoMetrics :: "videoMetrics option"
  categoryDistribution :: "(category \<times> nat) list"
  spamRatio :: rat
  averageEngagement :: rat
  topKeywords :: "keywordEntry list"
  engagementTrends :: "trend list"
  qualityIndicators :: qualityIndicators

text \<open>
  The callback of the reduction for \<open>totalFavorites\<close>,
  \<open>(sum, v) => sum + (v as any).favouriteCount || 0\<close>, which JavaScript reads as
  \<open>(sum + v.favouriteCount) || 0\<close>: with the property undefined the sum is \<open>NaN\<close> and
  the result 0; with the property a number the result is the sum (0 where the sum is 0).
\<close>

definition favouriteStep :: "nat \<Rightarrow> analyzedVideo \<Rightarrow> nat" where
  "favouriteStep acc v =
     (case av_favouriteCount v of
        None \<Rightarrow> 0
      | Some f \<Rightarrow> if acc + f = 0 then 0 else acc + f)"

text \<open>
  \<open>analyzedVideos.sort((a, b) => b.engagementRate - a.engagementRate)\<close>: the stable
  sort by descending engagement rate. It sorts the array it is called on.
\<close>

definition sortByEngagement :: "analyzedVideo list \<Rightarrow> analyzedVideo list" where
  "sortByEngagement vs = sort_key (\<lambda>v. - av_engagementRate v) vs"

text \<open>One step of the reduction for \<open>categoryPerformance\<close>.\<close>

definition performanceStep ::
  "analyzedVideo \<Rightarrow> (category \<times> nat \<times> rat \<times> nat) list \<Rightarrow> (category \<times> nat \<times> rat \<times> nat) list" where
  "performanceStep video acc =
     (case (case map_of acc (av_category video) of None \<Rightarrow> (0, 0, 0) | Some e \<Rightarrow> e) of
        (views, engagement, n) \<Rightarrow>
          setProp (av_category video)
            (views + av_viewCount video, engagement + av_engagementRate video, n + 1) acc)"

text \<open>
  The block that computes the video metrics, for a non-empty array. The source has the
  same block in both branches of \<open>generateMetrics\<close>. The second component is the
  argument array after the block: the call of \<open>sort\<close> has reordered it.
\<close>

definition videoBlock :: "analyzedVideo list \<Rightarrow> videoMetrics \<times> analyzedVideo list" where
  "videoBlock analyzedVideos =
     (let n = length analyzedVideos;
          totViews = sum_list (map av_viewCount analyzedVideos);
          totLikes = sum_list (map av_likeCount analyzedVideos);
          totFavorites = foldl favouriteStep 0 analyzedVideos;
          sorted = sortByEngagement analyzedVideos;
          perf = fold performanceStep sorted []
      in (\<lparr> totalViews = totViews,
             totalLikes = totLikes,
             totalFavorites = totFavorites,
             avgViewCount = of_nat totViews / of_nat n,
             avgLikeCount = of_nat totLikes / of_nat n,
             avgFavoriteCount = of_nat totFavorites / of_nat n,
             avgCommentCount = of_nat (sum_list (map av_commentCount analyzedVideos)) / of_nat n,
             avgEngagementRate = sum_list (map av_engagementRate analyzedVideos) / of_nat n,
             topPerformingVideos =
               map (\<lambda>v. \<lparr> tv_videoId = av_videoId v, tv_title = av_title v,
                           tv_engagementRate = av_engagementRate v \<rparr>)
                   (take 5 sorted),
             categoryPerformance =
               map (\<lambda>(category, views, engagement, k).
                      (category, \<lparr> avgViews = of_nat views / of_nat k,
                                   avgEngagement = engagement / of_nat k \<rparr>))
                   perf \<rparr>,
          sorted))"

text \<open>
  \<open>if (analyzedVideos && analyzedVideos.length > 0)\<close> with the block: the metrics, if
  any, and the argument after the test.
\<close>

definition videoPart ::
  "analyzedVideo list option \<Rightarrow> videoMetrics option \<times> analyzedVideo list option" where
  "videoPart analyzedVideos =
     (case analyzedVideos of
        None \<Rightarrow> (None, None)
      | Some vs \<Rightarrow>
          if length vs > 0 then (case videoBlock vs of (m, vs') \<Rightarrow> (Some m, Some vs'))
          else (None, Some vs))"

text \<open>
  One step of the loop over the keywords of a comment. Where \<open>keywordCounts[keyword]\<close>
  is an inherited member, no entry is created, and the increment goes to the member.
\<close>

definition countKeyword ::
  "sentiment \<Rightarrow> jsstring \<Rightarrow> (nat \<times> sentiment) jsobj \<Rightarrow> (nat \<times> sentiment) jsobj" where
  "countKeyword s keyword keywordCounts =
     (case map_of keywordCounts keyword of
        Some (n, s0) \<Rightarrow> setProp keyword (n + 1, s0) keywordCounts
      | None \<Rightarrow>
          if keyword \<in> set objectPrototypeKeys then keywordCounts
          else setProp keyword (1, s) keywordCounts)"

definition keywordTable :: "analyzedComment list \<Rightarrow> (nat \<times> sentiment) jsobj" where
  "keywordTable analyzedComments =
     fold (\<lambda>comment keywordCounts.
             fold (countKeyword (ac_sentiment comment)) (ac_keywords comment) keywordCounts)
          analyzedComments []"

definition topKeywordsOf :: "analyzedComment list \<Rightarrow> keywordEntry list" where
  "topKeywordsOf analyzedComments =
     map (\<lambda>(keyword, n, s). \<lparr> ke_keyword = keyword, ke_count = n, ke_sentiment = s \<rparr>)
         (take 20 (sort_key (\<lambda>(keyword, n, s). - int n)
                            (entries (keywordTable analyzedComments))))"

text \<open>
  The hour of a comment is \<open>new Date(comment.publishedAt).getHours()\<close>, \<open>NaN\<close> (here
  \<open>None\<close>) for an invalid date. \<open>hourlyData\<close> maps an hour to the pair
  \<open>(comments, totalLikes)\<close>.
\<close>

definition hourlyStep ::
  "dateParser \<Rightarrow> analyzedComment \<Rightarrow> (nat option \<times> nat \<times> nat) list
     \<Rightarrow> (nat option \<times> nat \<times> nat) list" where
  "hourlyStep newDate comment hourlyData =
     (let hour = map_option hours (newDate (ac_publishedAt comment)) in
      case (case map_of hourlyData hour of None \<Rightarrow> (0, 0) | Some e \<Rightarrow> e) of
        (n, likes) \<Rightarrow> setProp hour (n + 1, likes + ac_likeCount comment) hourlyData)"

definition engagementTrendsOf :: "dateParser \<Rightarrow> analyzedComment list \<Rightarrow> trend list" where
  "engagementTrendsOf newDate analyzedComments =
     (let hourlyData = fold (hourlyStep newDate) analyzedComments [] in
      map (\<lambda>hour.
             case map_of hourlyData (Some hour) of
               None \<Rightarrow> \<lparr> tr_hour = hour, tr_comments = 0, tr_avgLikes = 0 \<rparr>
             | Some (n, likes) \<Rightarrow>
                 \<lparr> tr_hour = hour, tr_comments = n, tr_avgLikes = of_nat likes / of_nat n \<rparr>)
          [0..<24])"

definition categoryStep :: "analyzedComment \<Rightarrow> (category \<times> nat) list \<Rightarrow> (category \<times> nat) list" where
  "categoryStep comment acc =
     setProp (ac_category comment)
       ((case map_of acc (ac_category comment) of None \<Rightarrow> 0 | Some n \<Rightarrow> n) + 1) acc"

definition countWhere :: "('a \<Rightarrow> bool) \<Rightarrow> 'a list \<Rightarrow> rat" where
  "countWhere p xs = of_nat (length (filter p xs))"

text \<open>
  The result is the metrics object together with the argument \<open>analyzedVideos\<close> as the
  call leaves it.
\<close>

definition generateMetrics ::
  "dateParser \<Rightarrow> analyzedComment list \<Rightarrow> analyzedVideo list option
     \<Rightarrow> analysisMetrics \<times> analyzedVideo list option" where
  "generateMetrics newDate analyzedComments analyzedVideos =
     (let total = length analyzedComments;
          nVideos = (case analyzedVideos of None \<Rightarrow> 0 | Some vs \<Rightarrow> length vs)
      in if total = 0 then
           (case videoPart analyzedVideos of (videoOnlyMetrics, videosAfter) \<Rightarrow>
              (\<lparr> totalComments = 0,
                 totalVideos = nVideos,
                 qualityRatio = 0,
                 sentimentDistribution = \<lparr> sd_positive = 0, sd_negative = 0, sd_neutral = 0 \<rparr>,
                 videoMetrics = videoOnlyMetrics,
                 categoryDistribution = [],
                 spamRatio = 0,
                 averageEngagement = 0,
                 topKeywords = [],
                 engagementTrends = [],
                 qualityIndicators = \<lparr> avgLength = 0, avgLikes = 0, avgReadability = 0 \<rparr> \<rparr>,
               videosAfter))
         else
           (let catDistribution = fold categoryStep analyzedComments [];
                topKws = topKeywordsOf analyzedComments;
                trends = engagementTrendsOf newDate analyzedComments
            in case videoPart analyzedVideos of (vMetrics, videosAfter) \<Rightarrow>
              (\<lparr> totalComments = total,
                 totalVideos = nVideos,
                 qualityRatio = countWhere ac_isQuality analyzedComments / of_nat total * 100,
                 sentimentDistribution =
                   \<lparr> sd_positive =
                       countWhere (\<lambda>c. ac_sentiment c = Positive) analyzedComments
                         / of_nat total * 100,
                     sd_negative =
                       countWhere (\<lambda>c. ac_sentiment c = Negative) analyzedComments
                         / of_nat total * 100,
                     sd_neutral =
                       countWhere (\<lambda>c. ac_sentiment c = Neutral) analyzedComments
                         / of_nat total * 100 \<rparr>,
                 videoMetrics = vMetrics,
                 categoryDistribution = catDistribution,
                 spamRatio = countWhere ac_isSpam analyzedComments / of_nat total * 100,
                 averageEngagement =
                   of_nat (sum_list (map ac_likeCount analyzedComments)) / of_nat total,
                 topKeywords = topKws,
                 engagementTrends = trends,
                 qualityIndicators =
                   \<lparr> avgLength =
                       of_nat (sum_list (map (\<lambda>c. length (ac_textOriginal c)) analyzedComments))
                         / of_nat total,
                     avgLikes =
                       of_nat (sum_list (map ac_likeCount analyzedComments)) / of_nat total,
                     avgReadability =
                       sum_list (map ac_readabilityScore analyzedComments) / of_nat total \<rparr> \<rparr>,
               videosAfter)))"

section \<open>Example records\<close>

definition exampleVideo :: videoData where
  "exampleVideo =
     cleanedVideo exampleDate (videoRow ''v1'' ''Skincare Routine'' ''1000'' ''50'' ''5'' ''2'')"






section \<open>From text to cleaned rows (CommentAnalyzer.parseComments, parseVideos)\<close>

text \<open>
  \<open>row.a || row.b || d\<close>: the first of the named properties that is a non-empty
  string, and the default where there is none.
\<close>

fun firstOf :: "jsstring jsobj \<Rightarrow> jsstring list \<Rightarrow> jsstring \<Rightarrow> jsstring" where
  "firstOf row [] d = d"
| "firstOf row (name # names) d =
     (case map_of row name of
        None \<Rightarrow> firstOf row names d
      | Some v \<Rightarrow> if v \<noteq> [] then v else firstOf row names d)"

definition mapComment :: "jsstring jsobj \<Rightarrow> mappedComment" where
  "mapComment row =
     \<lparr> mc_kind = firstOf row [js ''kind''] (js ''youtube#comment''),
       mc_commentId = firstOf row [js ''commentId'', js ''comment_id''] [],
       mc_channelId = firstOf row [js ''channelId'', js ''channel_id''] [],
       mc_videoId = firstOf row [js ''videoId'', js ''video_id''] [],
       mc_authorId = firstOf row [js ''authorId'', js ''author_id''] [],
       mc_textOriginal = firstOf row [js ''textOriginal'', js ''text_original'', js ''text''] [],
       mc_parentCommentId = firstOf row [js ''parentCommentId'', js ''parent_comment_id''] [],
       mc_likeCount = firstOf row [js ''likeCount'', js ''like_count''] (js ''0''),
       mc_publishedAt = firstOf row [js ''publishedAt'', js ''published_at''] [],
       mc_updatedAt = firstOf row [js ''updatedAt'', js ''updated_at''] [] \<rparr>"

definition mapVideo :: "jsstring jsobj \<Rightarrow> mappedVideo" where
  "mapVideo row =
     \<lparr> mv_kind = firstOf row [js ''kind''] (js ''youtube#video''),
       mv_videoId = firstOf row [js ''videoId'', js ''video_id''] [],
       mv_publishedAt = firstOf row [js ''publishedAt'', js ''published_at''] [],
       mv_channelId = firstOf row [js ''channelId'', js ''channel_id''] [],
       mv_title = firstOf row [js ''title''] [],
       mv_description = firstOf row [js ''description''] [],
       mv_tags = firstOf row [js ''tags''] [],
       mv_defaultLanguage = firstOf row [js ''defaultLanguage'', js ''default_language''] (js ''en''),
       mv_defaultAudioLanguage =
         firstOf row [js ''defaultAudioLanguage'', js ''default_audio_language''] (js ''en''),
       mv_contentDuration = firstOf row [js ''contentDuration'', js ''content_duration''] [],
       mv_viewCount = firstOf row [js ''viewCount'', js ''view_count''] (js ''0''),
       mv_likeCount = firstOf row [js ''likeCount'', js ''like_count''] (js ''0''),
       mv_favouriteCount = firstOf row [js ''favouriteCount'', js ''favourite_count''] (js ''0''),
       mv_commentCount = firstOf row [js ''commentCount'', js ''comment_count''] (js ''0''),
       mv_topicCategories = firstOf row [js ''topicCategories''] [] \<rparr>"

text \<open>
  The cleaned rows that the function returns, together with the stats object that it
  writes to the console.
\<close>

definition parseComments ::
  "caseMapping \<Rightarrow> dateParser \<Rightarrow> jsstring \<Rightarrow> parseError + commentData list \<times> commentStats" where
  "parseComments toLowerCase newDate csvText =
     (case parseCSV toLowerCase csvText commentColumns of
        Inl e \<Rightarrow> Inl e
      | Inr data \<Rightarrow> Inr (cleanCommentData newDate (map mapComment data)))"

definition parseVideos ::
  "caseMapping \<Rightarrow> dateParser \<Rightarrow> jsstring \<Rightarrow> parseError + videoData list \<times> videoStats" where
  "parseVideos toLowerCase newDate csvText =
     (case parseCSV toLowerCase csvText videoColumns of
        Inl e \<Rightarrow> Inl e
      | Inr data \<Rightarrow> Inr (cleanVideoData newDate (map mapVideo data)))"

chapter \<open>Properties\<close>

section \<open>Properties of file type detection\<close>

lemma str_includes_sublist: "str_includes s p \<longleftrightarrow> sublist p s"
  by (induction s) (simp_all add: sublist_Cons_right)

lemma headerMatch_iff:
  "headerMatch (map toLowerCase hs) t \<longleftrightarrow>
     (\<exists>h \<in> set hs. sublist t (toLowerCase h) \<or> sublist (toLowerCase h) t)"
  by (auto simp: headerMatch_def list_ex_iff str_includes_sublist)

lemma distinct_commentHeaders: "distinct commentHeaders"
  by (simp add: commentHeaders_def js_def)

lemma distinct_videoHeaders: "distinct videoHeaders"
  by (simp add: videoHeaders_def js_def)

lemma signatureHits_filter:
  assumes "distinct sig"
  shows "signatureHits toLowerCase sig hs = length (filter (headerMatch (map toLowerCase hs)) sig)"
proof -
  have "{t \<in> set sig. \<exists>h \<in> set hs. sublist t (toLowerCase h) \<or> sublist (toLowerCase h) t}
        = set (filter (headerMatch (map toLowerCase hs)) sig)"
    by (auto simp: headerMatch_iff)
  moreover have "card (set (filter (headerMatch (map toLowerCase hs)) sig))
        = length (filter (headerMatch (map toLowerCase hs)) sig)"
    using assms by (intro distinct_card) simp
  ultimately show ?thesis
    unfolding signatureHits_def by (simp only:)
qed

text \<open>
  C2 (amended). A file is classified as comments exactly when at least 3 of the 4
  comment-signature tokens match some header, whether or not the video signature also
  reaches 3; as videos exactly when fewer than 3 comment tokens and at least 3 of the 5
  video tokens match; and as unknown exactly when neither signature reaches 3. A token
  matches a header when, case-insensitively, either one contains the other.
\<close>

theorem detectFileType_by_hits:
  "(detectFileType toLowerCase hs = Comments \<longleftrightarrow>
      3 \<le> signatureHits toLowerCase commentHeaders hs) \<and>
   (detectFileType toLowerCase hs = Videos \<longleftrightarrow>
      signatureHits toLowerCase commentHeaders hs < 3 \<and>
      3 \<le> signatureHits toLowerCase videoHeaders hs) \<and>
   (detectFileType toLowerCase hs = Unknown \<longleftrightarrow>
      signatureHits toLowerCase commentHeaders hs < 3 \<and>
      signatureHits toLowerCase videoHeaders hs < 3)"
  by (auto simp: detectFileType_def Let_def
        signatureHits_filter [OF distinct_commentHeaders]
        signatureHits_filter [OF distinct_videoHeaders])

theorem detectFileType_by_hits_witness:
  "detectFileType asciiLowerCase [js ''videoId'', js ''Title'', js ''viewCount'', js ''likeCount''] = Videos \<and>
   signatureHits asciiLowerCase commentHeaders [js ''videoId'', js ''Title'', js ''viewCount'', js ''likeCount''] < 3 \<and>
   3 \<le> signatureHits asciiLowerCase videoHeaders [js ''videoId'', js ''Title'', js ''viewCount'', js ''likeCount'']"
proof -
  have "detectFileType asciiLowerCase [js ''videoId'', js ''Title'', js ''viewCount'', js ''likeCount''] = Videos"
    by (simp add: detectFileType_def Let_def headerMatch_def commentHeaders_def
          videoHeaders_def asciiLowerCase_def asciiLowerUnit_def js_def)
  then show ?thesis
    using detectFileType_by_hits
      [of asciiLowerCase "[js ''videoId'', js ''Title'', js ''viewCount'', js ''likeCount'']"]
    by simp
qed

text \<open>
  C2 (as stated) fails where both signatures reach 3 matches: the comment test comes
  first and wins. With the headers commentId, textOriginal, videoId, title, description
  three comment tokens and three video tokens match, and the result is comments.
\<close>

theorem detectFileType_both_counterexample:
  "length (filter (headerMatch (map asciiLowerCase
       [js ''commentId'', js ''textOriginal'', js ''videoId'', js ''title'', js ''description'']))
     commentHeaders) = 3 \<and>
   length (filter (headerMatch (map asciiLowerCase
       [js ''commentId'', js ''textOriginal'', js ''videoId'', js ''title'', js ''description'']))
     videoHeaders) = 3 \<and>
   detectFileType asciiLowerCase
     [js ''commentId'', js ''textOriginal'', js ''videoId'', js ''title'', js ''description'']
     = Comments"
  by (simp add: detectFileType_def Let_def headerMatch_def commentHeaders_def
        videoHeaders_def asciiLowerCase_def asciiLowerUnit_def js_def)

section \<open>Properties of CSV parsing\<close>

lemma split_not_Nil: "split sep s \<noteq> []"
  by (induction s) (auto split: list.splits)

lemma split_append_sep: "split sep (x @ sep # y) = split sep x @ split sep y"
proof (induction x)
  case Nil
  show ?case by simp
next
  case (Cons c x)
  show ?case
  proof (cases "c = sep")
    case True
    with Cons show ?thesis by simp
  next
    case False
    obtain l ls where "split sep x = l # ls"
      using split_not_Nil [of sep x] by (cases "split sep x") auto
    with False Cons show ?thesis by simp
  qed
qed

lemma split_no_sep: "sep \<notin> set s \<Longrightarrow> split sep s = [s]"
  by (induction s) auto

lemma split_covers: "c \<in> set s \<Longrightarrow> c \<noteq> sep \<Longrightarrow> \<exists>l \<in> set (split sep s). c \<in> set l"
proof (induction s)
  case Nil
  then show ?case by simp
next
  case (Cons d s)
  obtain l ls where sp: "split sep s = l # ls"
    using split_not_Nil [of sep s] by (cases "split sep s") auto
  show ?case
  proof (cases "c \<in> set s")
    case True
    with Cons obtain l' where "l' \<in> set (split sep s)" "c \<in> set l'" by blast
    with sp show ?thesis by (cases "d = sep") auto
  next
    case False
    with Cons.prems have "c = d" by simp
    with Cons.prems sp show ?thesis by simp
  qed
qed

lemma nonBlank_line_exists:
  assumes "c \<in> set s" and "\<not> isWhiteSpace c"
  shows "0 < length (filter nonBlank (split 0x0A s))"
proof -
  have "c \<noteq> 0x0A" using assms(2) by (auto simp: isWhiteSpace_def)
  with assms(1) obtain l where "l \<in> set (split 0x0A s)" "c \<in> set l"
    using split_covers by blast
  with assms(2) have "l \<in> set (filter nonBlank (split 0x0A s))"
    by (auto simp: nonBlank_def list_ex_iff)
  then have "filter nonBlank (split 0x0A s) \<noteq> []"
    by (metis empty_iff empty_set)
  then show ?thesis by simp
qed

lemma dropWhile_rev_decompose:
  "m = rev (dropWhile P (rev m)) @ rev (takeWhile P (rev m))"
proof -
  have "rev m = takeWhile P (rev m) @ dropWhile P (rev m)" by simp
  then have "rev (rev m) = rev (takeWhile P (rev m) @ dropWhile P (rev m))" by simp
  then show ?thesis by (simp only: rev_rev_ident rev_append)
qed

lemma trim_decompose: "\<exists>a b. s = a @ trim s @ b"
proof -
  let ?m = "dropWhile isWhiteSpace s"
  have "s = takeWhile isWhiteSpace s @ ?m" by simp
  moreover have "?m = trim s @ rev (takeWhile isWhiteSpace (rev ?m))"
    unfolding trim_def by (rule dropWhile_rev_decompose)
  ultimately show ?thesis by metis
qed

lemma trim_hd:
  assumes ne: "trim s \<noteq> []"
  shows "\<not> isWhiteSpace (hd (trim s))"
proof -
  let ?m = "dropWhile isWhiteSpace s"
  have m: "?m \<noteq> []"
  proof
    assume e: "?m = []"
    have "trim s = []" unfolding trim_def e by simp
    with ne show False by simp
  qed
  have "?m = trim s @ rev (takeWhile isWhiteSpace (rev ?m))"
    unfolding trim_def by (rule dropWhile_rev_decompose)
  then have "hd ?m = hd (trim s)" using ne by (metis hd_append2)
  moreover have "\<not> isWhiteSpace (hd ?m)" using m by (rule hd_dropWhile)
  ultimately show ?thesis by simp
qed

lemma trim_last:
  assumes ne: "trim s \<noteq> []"
  shows "\<not> isWhiteSpace (last (trim s))"
proof -
  let ?r = "dropWhile isWhiteSpace (rev (dropWhile isWhiteSpace s))"
  have r: "?r \<noteq> []" using ne by (simp add: trim_def)
  then have "\<not> isWhiteSpace (hd ?r)" by (rule hd_dropWhile)
  moreover have "last (trim s) = hd ?r"
    using r by (simp add: trim_def last_rev)
  ultimately show ?thesis by simp
qed

lemma two_lines_after_trim:
  assumes "2 \<le> length (split 0x0A (trim s))"
  shows "2 \<le> length (filter nonBlank (split 0x0A s))"
proof -
  have nl: "isWhiteSpace 0x0A" by (simp add: isWhiteSpace_def)
  have "0x0A \<in> set (trim s)"
    using assms split_no_sep [of "0x0A" "trim s"] by (cases "0x0A \<in> set (trim s)") auto
  then obtain u v where t: "trim s = u @ 0x0A # v"
    by (auto dest: split_list)
  then have ne: "trim s \<noteq> []" by simp
  have "u \<noteq> []"
  proof
    assume "u = []"
    with t have "hd (trim s) = 0x0A" by simp
    with trim_hd [OF ne] nl show False by simp
  qed
  then have hu: "hd (trim s) \<in> set u" using t by (cases u) auto
  have "v \<noteq> []"
  proof
    assume "v = []"
    with t have "last (trim s) = 0x0A" by simp
    with trim_last [OF ne] nl show False by simp
  qed
  then have lv: "last (trim s) \<in> set v" using t by simp
  obtain a b where s: "s = a @ trim s @ b" using trim_decompose by blast
  then have "s = (a @ u) @ 0x0A # (v @ b)" using t by simp
  then have "split 0x0A s = split 0x0A (a @ u) @ split 0x0A (v @ b)"
    by (metis split_append_sep)
  moreover have "0 < length (filter nonBlank (split 0x0A (a @ u)))"
    using nonBlank_line_exists [of "hd (trim s)" "a @ u"] hu trim_hd [OF ne] by simp
  moreover have "0 < length (filter nonBlank (split 0x0A (v @ b)))"
    using nonBlank_line_exists [of "last (trim s)" "v @ b"] lv trim_last [OF ne] by simp
  ultimately show ?thesis by (auto simp: neq_Nil_conv)
qed

text \<open>
  C3 (amended). For every input text with fewer than 2 lines that have a character
  other than white space, \<open>parseCSV\<close> returns normally, and its result is the empty
  list of rows; it does not fail.
\<close>

theorem parseCSV_short_input:
  assumes "length (filter nonBlank (split 0x0A csvText)) < 2"
  shows "parseCSV toLowerCase csvText expectedColumns = Inr []"
proof -
  have "\<not> 2 \<le> length (split 0x0A (trim csvText))"
    using assms two_lines_after_trim [of csvText] by auto
  then show ?thesis by (simp add: parseCSV_def)
qed

theorem parseCSV_short_input_witness:
  "length (filter nonBlank (split 0x0A (js ''commentId,videoId,textOriginal''))) < 2 \<and>
   parseCSV asciiLowerCase (js ''commentId,videoId,textOriginal'') commentColumns = Inr []"
proof -
  have h: "length (filter nonBlank (split 0x0A (js ''commentId,videoId,textOriginal''))) < 2"
    by (simp add: js_def nonBlank_def isWhiteSpace_def)
  from parseCSV_short_input
      [where toLowerCase = asciiLowerCase and expectedColumns = commentColumns, OF h] h
  show ?thesis by simp
qed

text \<open>
  C3 (as stated) fails: on the empty text \<open>parseCSV\<close> returns the empty list, it does
  not fail with \<open>EmptyInputError\<close>.
\<close>

theorem parseCSV_empty_counterexample:
  "parseCSV asciiLowerCase (js '''') commentColumns = Inr [] \<and>
   parseCSV asciiLowerCase (js '''') commentColumns \<noteq> Inl EmptyInputError"
  by (simp add: parseCSV_def js_def trim_def)

text \<open>A file whose only data line has the wrong number of fields gives no row.\<close>

lemma parseCSV_one_field_line:
  "parseCSV asciiLowerCase (js ''commentId,videoId,textOriginal\<newline>hello'') commentColumns = Inr []"
proof -
  have t: "trim (js ''commentId,videoId,textOriginal\<newline>hello'')
             = js ''commentId,videoId,textOriginal\<newline>hello''"
    by (simp add: trim_def js_def isWhiteSpace_def)
  have l: "split 0x0A (js ''commentId,videoId,textOriginal\<newline>hello'')
             = [js ''commentId,videoId,textOriginal'', js ''hello'']"
    by (simp add: js_def)
  have scores:
    "headerScore asciiLowerCase commentColumns (parseCSVLine (js ''commentId,videoId,textOriginal'') 0x2C) = 3"
    "headerScore asciiLowerCase commentColumns (parseCSVLine (js ''commentId,videoId,textOriginal'') 0x3B) = 3"
    "headerScore asciiLowerCase commentColumns (parseCSVLine (js ''commentId,videoId,textOriginal'') 0x7C) = 3"
    "headerScore asciiLowerCase commentColumns (parseCSVLine (js ''commentId,videoId,textOriginal'') 0x09) = 3"
    by (simp_all add: headerScore_def parseCSVLine_def commentColumns_def asciiLowerCase_def
          asciiLowerUnit_def js_def)
  have sep: "chooseSeparator asciiLowerCase (js ''commentId,videoId,textOriginal'') commentColumns = 0x2C"
    by (simp add: chooseSeparator_def separators_def scores)
  have h: "length (parseCSVLine (js ''commentId,videoId,textOriginal'') 0x2C) = 3"
    by (simp add: parseCSVLine_def js_def)
  have d: "parseDataLine (parseCSVLine (js ''commentId,videoId,textOriginal'') 0x2C) 0x2C
             (js ''hello'') = None"
    by (simp add: parseDataLine_def Let_def h) (simp add: parseCSVLine_def trim_def js_def)
  show ?thesis
    by (simp add: parseCSV_def t l sep d List.map_filter_simps)
qed

section \<open>Properties of data cleaning\<close>

text \<open>The loop of \<open>cleanCommentData\<close> from any starting state.\<close>

lemma comment_fold:
  "fold (commentFilterStep newDate) cs (cl, a, b, c, d) =
     (cl @ map (cleanedComment newDate)
             (filter (\<lambda>x. \<not> blank (mc_videoId x) \<and> \<not> blank (mc_commentId x)
                           \<and> \<not> blank (mc_textOriginal x)) cs),
      a + length (filter (\<lambda>x. blank (mc_videoId x)) cs),
      b + length (filter (\<lambda>x. \<not> blank (mc_videoId x) \<and> blank (mc_commentId x)) cs),
      c + length (filter (\<lambda>x. \<not> blank (mc_videoId x) \<and> \<not> blank (mc_commentId x)
                                \<and> blank (mc_textOriginal x)) cs),
      d + length (filter (\<lambda>x. \<not> blank (mc_videoId x) \<and> \<not> blank (mc_commentId x)
                                \<and> \<not> blank (mc_textOriginal x)
                                \<and> dateIsReset newDate (mc_publishedAt x)) cs))"
  by (induction cs arbitrary: cl a b c d) (simp_all add: commentFilterStep_def)

lemma video_fold:
  "fold (videoFilterStep newDate) vs (cl, a, b, c, d) =
     (cl @ map (cleanedVideo newDate)
             (filter (\<lambda>x. \<not> blank (mv_videoId x) \<and> \<not> blank (mv_title x)) vs),
      a + length (filter (\<lambda>x. blank (mv_videoId x)) vs),
      b + length (filter (\<lambda>x. \<not> blank (mv_videoId x) \<and> blank (mv_title x)) vs),
      c + length (filter (\<lambda>x. \<not> blank (mv_videoId x) \<and> \<not> blank (mv_title x)
                                \<and> dateIsReset newDate (mv_publishedAt x)) vs),
      d + length (filter (\<lambda>x. \<not> blank (mv_videoId x) \<and> \<not> blank (mv_title x)
                                \<and> mv_viewCount x \<noteq> []
                                \<and> cleanCount (mv_viewCount x) = 0) vs))"
  by (induction vs arbitrary: cl a b c d) (simp_all add: videoFilterStep_def)

text \<open>Three predicates that exclude one another, and the rest, partition a list.\<close>

lemma partition4:
  "length (filter (\<lambda>x. \<not> p x \<and> \<not> q x \<and> \<not> r x) xs)
     + (length (filter p xs) + length (filter (\<lambda>x. \<not> p x \<and> q x) xs)
        + length (filter (\<lambda>x. \<not> p x \<and> \<not> q x \<and> r x) xs))
   = length xs"
  by (induction xs) auto

lemma partition3:
  "length (filter (\<lambda>x. \<not> p x \<and> \<not> q x) xs)
     + (length (filter p xs) + length (filter (\<lambda>x. \<not> p x \<and> q x) xs))
   = length xs"
  by (induction xs) auto

lemma cleanCommentData_unfold:
  "cleanCommentData newDate cs =
    (let kept = filter (\<lambda>x. \<not> blank (mc_videoId x) \<and> \<not> blank (mc_commentId x)
                             \<and> \<not> blank (mc_textOriginal x)) cs
     in (map (cleanedComment newDate) kept,
         \<lparr> originalCount = length cs,
           cleanedCount = length kept,
           removedCount = int (length cs) - int (length kept),
           nullVideoIds = length (filter (\<lambda>x. blank (mc_videoId x)) cs),
           invalidDates = length (filter (\<lambda>x. \<not> blank (mc_videoId x) \<and> \<not> blank (mc_commentId x)
                                \<and> \<not> blank (mc_textOriginal x)
                                \<and> dateIsReset newDate (mc_publishedAt x)) cs),
           cleaningRate = toFixed1 (jsTimes (jsDiv (of_nat (length cs) - of_nat (length kept))
                                        (of_nat (length cs))) 100),
           nullCommentIds =
             length (filter (\<lambda>x. \<not> blank (mc_videoId x) \<and> blank (mc_commentId x)) cs),
           nullTexts =
             length (filter (\<lambda>x. \<not> blank (mc_videoId x) \<and> \<not> blank (mc_commentId x)
                                \<and> blank (mc_textOriginal x)) cs) \<rparr>))"
  by (simp add: cleanCommentData_def comment_fold Let_def)

lemma cleanVideoData_unfold:
  "cleanVideoData newDate vs =
    (let kept = filter (\<lambda>x. \<not> blank (mv_videoId x) \<and> \<not> blank (mv_title x)) vs
     in (map (cleanedVideo newDate) kept,
         \<lparr> originalCount = length vs,
           cleanedCount = length kept,
           removedCount = int (length vs) - int (length kept),
           nullVideoIds = length (filter (\<lambda>x. blank (mv_videoId x)) vs),
           invalidDates = length (filter (\<lambda>x. \<not> blank (mv_videoId x) \<and> \<not> blank (mv_title x)
                                \<and> dateIsReset newDate (mv_publishedAt x)) vs),
           cleaningRate = toFixed1 (jsTimes (jsDiv (of_nat (length vs) - of_nat (length kept))
                                        (of_nat (length vs))) 100),
           nullTitles = length (filter (\<lambda>x. \<not> blank (mv_videoId x) \<and> blank (mv_title x)) vs),
           invalidMetrics =
             length (filter (\<lambda>x. \<not> blank (mv_videoId x) \<and> \<not> blank (mv_title x)
                                \<and> mv_viewCount x \<noteq> []
                                \<and> cleanCount (mv_viewCount x) = 0) vs) \<rparr>))"
  by (simp add: cleanVideoData_def video_fold Let_def)

text \<open>
  C9. For every list of rows, the cleaned rows and the removed count add up to the
  original count, and the removed count is the sum of the drop counters. Every counter
  is the number of rows with its own reason, and the reasons exclude one another: a row
  is counted for a missing \<open>commentId\<close> only if its \<open>videoId\<close> is present, and for a
  missing text (or title) only if the identifiers before it are present.
\<close>

theorem cleaning_row_count_invariant:
  "(case cleanCommentData newDate comments of (cleaned, stats) \<Rightarrow>
      originalCount stats = length comments \<and>
      int (length cleaned) + removedCount stats = int (originalCount stats) \<and>
      removedCount stats = int (nullVideoIds stats + nullCommentIds stats + nullTexts stats) \<and>
      nullVideoIds stats = length (filter (\<lambda>x. blank (mc_videoId x)) comments) \<and>
      nullCommentIds stats =
        length (filter (\<lambda>x. \<not> blank (mc_videoId x) \<and> blank (mc_commentId x)) comments) \<and>
      nullTexts stats =
        length (filter (\<lambda>x. \<not> blank (mc_videoId x) \<and> \<not> blank (mc_commentId x)
                             \<and> blank (mc_textOriginal x)) comments)) \<and>
   (case cleanVideoData newDate videos of (cleaned, stats) \<Rightarrow>
      originalCount stats = length videos \<and>
      int (length cleaned) + removedCount stats = int (originalCount stats) \<and>
      removedCount stats = int (nullVideoIds stats + nullTitles stats) \<and>
      nullVideoIds stats = length (filter (\<lambda>x. blank (mv_videoId x)) videos) \<and>
      nullTitles stats =
        length (filter (\<lambda>x. \<not> blank (mv_videoId x) \<and> blank (mv_title x)) videos))"
proof -
  have c: "int (length comments)
        - int (length (filter (\<lambda>x. \<not> blank (mc_videoId x) \<and> \<not> blank (mc_commentId x)
                             \<and> \<not> blank (mc_textOriginal x)) comments))
      = int (length (filter (\<lambda>x. blank (mc_videoId x)) comments)
          + length (filter (\<lambda>x. \<not> blank (mc_videoId x) \<and> blank (mc_commentId x)) comments)
          + length (filter (\<lambda>x. \<not> blank (mc_videoId x) \<and> \<not> blank (mc_commentId x)
                             \<and> blank (mc_textOriginal x)) comments))"
    using partition4 [of "\<lambda>x. blank (mc_videoId x)" "\<lambda>x. blank (mc_commentId x)"
        "\<lambda>x. blank (mc_textOriginal x)" comments]
    by linarith
  have v: "int (length videos)
        - int (length (filter (\<lambda>x. \<not> blank (mv_videoId x) \<and> \<not> blank (mv_title x)) videos))
      = int (length (filter (\<lambda>x. blank (mv_videoId x)) videos)
          + length (filter (\<lambda>x. \<not> blank (mv_videoId x) \<and> blank (mv_title x)) videos))"
    using partition3 [of "\<lambda>x. blank (mv_videoId x)" "\<lambda>x. blank (mv_title x)" videos]
    by linarith
  show ?thesis
    unfolding cleanCommentData_unfold cleanVideoData_unfold Let_def
    using c v by simp
qed

lemma blank_simps:
  "blank (js '''')" "blank (js ''  '')" "blank (js '' '')"
  "\<not> blank (js ''v1'')" "\<not> blank (js ''v2'')" "\<not> blank (js ''c1'')" "\<not> blank (js ''c5'')"
  "\<not> blank (js ''great serum'')" "\<not> blank (js ''Skincare Routine'')"
  by (simp_all add: blank_def trim_def js_def isWhiteSpace_def)

theorem cleaning_row_count_invariant_witness:
  "(case cleanCommentData exampleDate exampleCommentRows of (cleaned, stats) \<Rightarrow>
      length cleaned = 1 \<and> originalCount stats = 5 \<and> removedCount stats = 4 \<and>
      nullVideoIds stats = 2 \<and> nullCommentIds stats = 1 \<and> nullTexts stats = 1) \<and>
   (case cleanVideoData exampleDate exampleVideoRows of (cleaned, stats) \<Rightarrow>
      length cleaned = 1 \<and> originalCount stats = 3 \<and> removedCount stats = 2 \<and>
      nullVideoIds stats = 1 \<and> nullTitles stats = 1)"
proof -
  have c: "length (filter (\<lambda>x. blank (mc_videoId x)) exampleCommentRows) = 2"
    "length (filter (\<lambda>x. \<not> blank (mc_videoId x) \<and> blank (mc_commentId x)) exampleCommentRows) = 1"
    "length (filter (\<lambda>x. \<not> blank (mc_videoId x) \<and> \<not> blank (mc_commentId x)
                             \<and> blank (mc_textOriginal x)) exampleCommentRows) = 1"
    by (simp_all add: exampleCommentRows_def commentRow_def blank_simps)
  have v: "length (filter (\<lambda>x. blank (mv_videoId x)) exampleVideoRows) = 1"
    "length (filter (\<lambda>x. \<not> blank (mv_videoId x) \<and> blank (mv_title x)) exampleVideoRows) = 1"
    by (simp_all add: exampleVideoRows_def videoRow_def blank_simps)
  have n: "length exampleCommentRows = 5" "length exampleVideoRows = 3"
    by (simp_all add: exampleCommentRows_def exampleVideoRows_def)
  show ?thesis
    using cleaning_row_count_invariant
      [where newDate = exampleDate and comments = exampleCommentRows
         and videos = exampleVideoRows]
    by (auto simp: c v n split: prod.splits)
qed

text \<open>
  C4 (failing input). On the empty list of rows both cleaning functions divide zero by
  zero: the rate is \<open>NaN\<close>, and the stats report the string \<open>"NaN"\<close>, where the claim
  asks for a guarded 0. \<open>parseComments\<close> reaches this case on a file whose only data
  line has the wrong number of fields.
\<close>

theorem cleaningRate_empty_input:
  "cleaningRate (snd (cleanCommentData newDate [])) = js ''NaN'' \<and>
   cleaningRate (snd (cleanVideoData newDate [])) = js ''NaN'' \<and>
   map_sum id (\<lambda>r. cleaningRate (snd r))
     (parseComments asciiLowerCase newDate (js ''commentId,videoId,textOriginal\<newline>hello''))
     = Inr (js ''NaN'')"
  by (simp add: parseComments_def parseCSV_one_field_line cleanCommentData_def
        cleanVideoData_def jsDiv_def jsTimes_def toFixed1_def)

section \<open>Properties of the sentiment classifier\<close>

lemma tally_count:
  "tally t w ws (s, n) =
     (s + w * int (length (filter (str_includes t) ws)), n + length (filter (str_includes t) ws))"
  unfolding tally_def
  by (induction ws arbitrary: s n) (simp_all add: algebra_simps)

lemma analyzeSentiment_counts:
  "analyzeSentiment toLowerCase text =
     (let score = 3 * int (length (matched toLowerCase text positiveStrong))
                + 2 * int (length (matched toLowerCase text positiveModerate))
                + int (length (matched toLowerCase text positiveMild))
                - 3 * int (length (matched toLowerCase text negativeStrong))
                - 2 * int (length (matched toLowerCase text negativeModerate))
                - int (length (matched toLowerCase text negativeMild));
          wordCount = length (matched toLowerCase text positiveStrong)
                + length (matched toLowerCase text positiveModerate)
                + length (matched toLowerCase text positiveMild)
                + length (matched toLowerCase text negativeStrong)
                + length (matched toLowerCase text negativeModerate)
                + length (matched toLowerCase text negativeMild);
          normalizedScore = (if wordCount > 0 then of_int score / of_nat wordCount else 0)
      in \<lparr> sr_sentiment = (if normalizedScore > 1 / 2 then Positive
                            else if normalizedScore < - (1 / 2) then Negative
                            else Neutral),
           sr_score = max (- 1) (min 1 normalizedScore) \<rparr>)"
  by (simp add: analyzeSentiment_def tally_count matched_def Let_def algebra_simps)

text \<open>
  C7. Whatever the case mapping: a text whose lower-cased form includes exactly one
  entry of the strong-positive list and no entry of the other five lists has score 1
  and label positive; a text whose lower-cased form includes exactly one
  strong-positive entry, exactly one strong-negative entry and no entry of the other
  four lists has score 0 and label neutral.
\<close>

theorem analyzeSentiment_boundary:
  "(length (matched toLowerCase text positiveStrong) = 1 \<and>
    matched toLowerCase text positiveModerate = [] \<and>
    matched toLowerCase text positiveMild = [] \<and>
    matched toLowerCase text negativeStrong = [] \<and>
    matched toLowerCase text negativeModerate = [] \<and>
    matched toLowerCase text negativeMild = []
    \<longrightarrow> analyzeSentiment toLowerCase text = \<lparr> sr_sentiment = Positive, sr_score = 1 \<rparr>) \<and>
   (length (matched toLowerCase text positiveStrong) = 1 \<and>
    length (matched toLowerCase text negativeStrong) = 1 \<and>
    matched toLowerCase text positiveModerate = [] \<and>
    matched toLowerCase text positiveMild = [] \<and>
    matched toLowerCase text negativeModerate = [] \<and>
    matched toLowerCase text negativeMild = []
    \<longrightarrow> analyzeSentiment toLowerCase text = \<lparr> sr_sentiment = Neutral, sr_score = 0 \<rparr>)"
  by (simp add: analyzeSentiment_counts Let_def)

lemma matched_amazing:
  "length (matched asciiLowerCase (js ''This is Amazing'') positiveStrong) = 1"
  "matched asciiLowerCase (js ''This is Amazing'') positiveModerate = []"
  "matched asciiLowerCase (js ''This is Amazing'') positiveMild = []"
  "matched asciiLowerCase (js ''This is Amazing'') negativeStrong = []"
  "matched asciiLowerCase (js ''This is Amazing'') negativeModerate = []"
  "matched asciiLowerCase (js ''This is Amazing'') negativeMild = []"
  by (simp_all add: matched_def asciiLowerCase_def asciiLowerUnit_def js_def positiveStrong_def
        positiveModerate_def positiveMild_def negativeStrong_def negativeModerate_def
        negativeMild_def)

lemma matched_amazing_terrible:
  "length (matched asciiLowerCase (js ''amazing but terrible'') positiveStrong) = 1"
  "length (matched asciiLowerCase (js ''amazing but terrible'') negativeStrong) = 1"
  "matched asciiLowerCase (js ''amazing but terrible'') positiveModerate = []"
  "matched asciiLowerCase (js ''amazing but terrible'') positiveMild = []"
  "matched asciiLowerCase (js ''amazing but terrible'') negativeModerate = []"
  "matched asciiLowerCase (js ''amazing but terrible'') negativeMild = []"
  by (simp_all add: matched_def asciiLowerCase_def asciiLowerUnit_def js_def positiveStrong_def
        positiveModerate_def positiveMild_def negativeStrong_def negativeModerate_def
        negativeMild_def)

theorem analyzeSentiment_boundary_witness:
  "analyzeSentiment asciiLowerCase (js ''This is Amazing'') = \<lparr> sr_sentiment = Positive, sr_score = 1 \<rparr> \<and>
   analyzeSentiment asciiLowerCase (js ''amazing but terrible'') = \<lparr> sr_sentiment = Neutral, sr_score = 0 \<rparr>"
  using analyzeSentiment_boundary [of asciiLowerCase "js ''This is Amazing''"]
    analyzeSentiment_boundary [of asciiLowerCase "js ''amazing but terrible''"]
    matched_amazing matched_amazing_terrible
  by blast

section \<open>Properties of the spam classifier\<close>

lemma spamTally_mono:
  "0 \<le> w \<Longrightarrow> fst st \<le> fst (spamTally t w r ps st)"
  unfolding spamTally_def
proof (induction ps arbitrary: st)
  case Nil
  show ?case by simp
next
  case (Cons p ps)
  obtain s rs where st: "st = (s, rs)" by (cases st)
  show ?case
  proof (cases "str_includes t p")
    case True
    have "fst (s + w, rs @ [r]) \<le> fst (fold (\<lambda>pattern (spamScore, reasons).
             if str_includes t pattern then (spamScore + w, reasons @ [r])
             else (spamScore, reasons)) ps (s + w, rs @ [r]))"
      using Cons.prems by (rule Cons.IH)
    with True st Cons.prems show ?thesis by simp
  next
    case False
    with st Cons.IH [OF Cons.prems, of st] show ?thesis by simp
  qed
qed

lemma spamState_nonneg: "0 \<le> fst (spamState toLowerCase text)"
proof -
  let ?t = "toLowerCase text"
  let ?s1 = "spamTally ?t (3 / 10) (js ''promotional_content'') promotional (0, [])"
  let ?s2 = "spamTally ?t (4 / 10) (js ''monetary_scheme'') monetary ?s1"
  let ?s3 = "spamTally ?t (2 / 10) (js ''repetitive_pattern'') repetitive ?s2"
  let ?s4 = "spamTally ?t (5 / 10) (js ''suspicious_content'') suspicious ?s3"
  have "0 \<le> fst ?s1" using spamTally_mono [of "3 / 10" "(0, [])"] by simp
  also have "\<dots> \<le> fst ?s2" by (rule spamTally_mono) simp
  also have "\<dots> \<le> fst ?s3" by (rule spamTally_mono) simp
  also have "\<dots> \<le> fst ?s4" by (rule spamTally_mono) simp
  finally have "0 \<le> fst ?s4" .
  then show ?thesis
    by (simp add: spamState_def Let_def)
qed

text \<open>
  C8. For every text and metadata the score of \<open>detectSpam\<close> lies in \<open>[0, 1]\<close>, and
  \<open>isSpam\<close> holds exactly when the score is greater than 1/2; in particular a score of
  exactly 1/2 goes with \<open>isSpam\<close> false.
\<close>

theorem detectSpam_score_range:
  "0 \<le> sp_score (detectSpam toLowerCase text metadata) \<and>
   sp_score (detectSpam toLowerCase text metadata) \<le> 1 \<and>
   (sp_isSpam (detectSpam toLowerCase text metadata)
      \<longleftrightarrow> sp_score (detectSpam toLowerCase text metadata) > 1 / 2) \<and>
   (sp_score (detectSpam toLowerCase text metadata) = 1 / 2
      \<longrightarrow> \<not> sp_isSpam (detectSpam toLowerCase text metadata))"
proof -
  obtain s rs where st: "spamState toLowerCase text = (s, rs)"
    by (cases "spamState toLowerCase text")
  with spamState_nonneg [of toLowerCase "text"] have "0 \<le> s" by simp
  then show ?thesis
    by (auto simp: detectSpam_def st min_def)
qed

lemma spamState_example:
  "fst (spamState asciiLowerCase (js ''first! www.example.com'')) = 1 / 2"
  by (simp add: spamState_def Let_def spamTally_def asciiLowerCase_def asciiLowerUnit_def js_def
        promotional_def monetary_def repetitive_def suspicious_def jsDiv_def jsGreater_def)

theorem detectSpam_score_range_witness:
  "sp_score (detectSpam asciiLowerCase (js ''first! www.example.com'')
       \<lparr> md_likeCount = 0, md_authorId = js ''u1'' \<rparr>) = 1 / 2 \<and>
   \<not> sp_isSpam (detectSpam asciiLowerCase (js ''first! www.example.com'')
       \<lparr> md_likeCount = 0, md_authorId = js ''u1'' \<rparr>)"
proof -
  have "sp_score (detectSpam asciiLowerCase (js ''first! www.example.com'')
       \<lparr> md_likeCount = 0, md_authorId = js ''u1'' \<rparr>) = 1 / 2"
    using spamState_example
    by (cases "spamState asciiLowerCase (js ''first! www.example.com'')") (simp add: detectSpam_def)
  with detectSpam_score_range [of asciiLowerCase "js ''first! www.example.com''"
      "\<lparr> md_likeCount = 0, md_authorId = js ''u1'' \<rparr>"]
  show ?thesis by blast
qed

section \<open>Properties of the metrics\<close>

text \<open>
  C1 (amended). With no comments and no videos \<open>generateMetrics\<close> returns
  \<open>totalComments\<close> 0, every ratio and average 0, no video metrics, an empty category
  distribution, \<open>topKeywords\<close> empty and \<open>engagementTrends\<close> empty: the branch for zero
  comments returns the literal \<open>[]\<close>, not 24 buckets. Every number of the result is
  finite.
\<close>

theorem generateMetrics_no_input:
  "generateMetrics newDate [] (Some []) =
     (\<lparr> totalComments = 0,
        totalVideos = 0,
        qualityRatio = 0,
        sentimentDistribution = \<lparr> sd_positive = 0, sd_negative = 0, sd_neutral = 0 \<rparr>,
        videoMetrics = None,
        categoryDistribution = [],
        spamRatio = 0,
        averageEngagement = 0,
        topKeywords = [],
        engagementTrends = [],
        qualityIndicators = \<lparr> avgLength = 0, avgLikes = 0, avgReadability = 0 \<rparr> \<rparr>,
      Some [])"
  by (simp add: generateMetrics_def videoPart_def)

theorem generateMetrics_no_input_witness:
  "totalComments (fst (generateMetrics exampleDate [] (Some []))) = 0 \<and>
   qualityRatio (fst (generateMetrics exampleDate [] (Some []))) = 0 \<and>
   topKeywords (fst (generateMetrics exampleDate [] (Some []))) = []"
  using generateMetrics_no_input [of exampleDate] by simp

text \<open>
  C1 (as stated) fails: for zero comments and zero videos \<open>engagementTrends\<close> is the
  empty array; it does not have 24 buckets.
\<close>

theorem engagementTrends_counterexample:
  "engagementTrends (fst (generateMetrics exampleDate [] (Some []))) = [] \<and>
   length (engagementTrends (fst (generateMetrics exampleDate [] (Some [])))) \<noteq> 24"
  by (simp add: generateMetrics_def videoPart_def)

text \<open>With at least one comment the trend has its 24 buckets, one per hour.\<close>

lemma engagementTrends_hours:
  "cs \<noteq> [] \<Longrightarrow>
     map tr_hour (engagementTrends (fst (generateMetrics newDate cs vs))) = [0..<24]"
proof -
  assume "cs \<noteq> []"
  have "map tr_hour (engagementTrendsOf newDate cs) = [0..<24]"
    unfolding engagementTrendsOf_def Let_def map_map
    by (rule map_idI) (auto split: option.splits)
  with \<open>cs \<noteq> []\<close> show ?thesis
    by (simp add: generateMetrics_def Let_def split: prod.splits)
qed

text \<open>
  The favourites. An object that \<open>analyzeVideo\<close> returns has no property
  \<open>favouriteCount\<close>, so the reduction gives 0 for every list of such objects.
\<close>

lemma analyzeVideo_no_favouriteCount: "av_favouriteCount (analyzeVideo toLowerCase video) = None"
  by (simp add: analyzeVideo_def Let_def)

lemma foldl_favouriteStep_undefined:
  "\<forall>v \<in> set vs. av_favouriteCount v = None \<Longrightarrow> foldl favouriteStep a vs = (if vs = [] then a else 0)"
  by (induction vs arbitrary: a) (auto simp: favouriteStep_def)

lemma totalFavorites_analyzeVideo:
  "totalFavorites (fst (videoBlock (map (analyzeVideo toLowerCase) videos))) = 0"
  using foldl_favouriteStep_undefined [of "map (analyzeVideo toLowerCase) videos" 0]
  by (simp add: videoBlock_def Let_def analyzeVideo_no_favouriteCount)

text \<open>Where every object has the property, the reduction is the sum.\<close>

lemma foldl_favouriteStep_defined:
  "\<forall>v \<in> set vs. av_favouriteCount v \<noteq> None \<Longrightarrow>
     foldl favouriteStep a vs = a + sum_list (map (\<lambda>v. the (av_favouriteCount v)) vs)"
  by (induction vs arbitrary: a) (auto simp: favouriteStep_def)

text \<open>
  C5 (failing input). The video of the example has \<open>favouriteCount\<close> 5 after cleaning.
  Analyzed and passed to \<open>generateMetrics\<close>, it gives \<open>totalFavorites\<close> 0 and
  \<open>avgFavoriteCount\<close> 0, where the claim asks for 5 and 5.
\<close>

theorem totalFavorites_failing_input:
  "vd_favouriteCount exampleVideo = 5 \<and>
   map_option totalFavorites
     (videoMetrics (fst (generateMetrics exampleDate [] (Some [analyzeVideo asciiLowerCase exampleVideo]))))
     = Some 0 \<and>
   map_option avgFavoriteCount
     (videoMetrics (fst (generateMetrics exampleDate [] (Some [analyzeVideo asciiLowerCase exampleVideo]))))
     = Some 0"
proof -
  have "vd_favouriteCount exampleVideo = 5"
    by (simp add: exampleVideo_def cleanedVideo_def videoRow_def cleanCount_def parseInt_def
          parseDigits_def isDigitOf_def digitValue_def isWhiteSpace_def js_def Let_def)
  moreover have "foldl favouriteStep 0 [analyzeVideo asciiLowerCase exampleVideo] = 0"
    by (simp add: favouriteStep_def analyzeVideo_no_favouriteCount)
  ultimately show ?thesis
    by (simp add: generateMetrics_def videoPart_def videoBlock_def Let_def)
qed




section \<open>Properties of the keyword table\<close>
































end
